theory Spec2Isabelle
  imports Main "HOL-Library.Word"
begin

section \<open>Data model\<close>

text \<open>
  Go's \<open>int64\<close> is a 64-bit word: \<open>+\<close> and \<open>-\<close> wrap around, and the
  comparisons of the source are the signed ones (\<open><s\<close>, \<open>\<le>s\<close>).
  A Go \<open>string\<close> is a sequence of bytes, here a \<open>char list\<close>.
\<close>

type_synonym int64 = "64 word"

definition MaxInt64 :: int64 where
  "MaxInt64 = 9223372036854775807"

record HTTPResponse =
  StatusCode :: int
  Body :: string
  Header :: "string \<rightharpoonup> string"

text \<open>
  \<open>models.Error\<close>: a catalog error with its code, message and default response.
  Go's \<open>error\<close> interface holds either such a value or any other error
  (of a store, a hook, the standard library).
\<close>

record Error =
  ErrorCode :: string
  Message :: string
  HTTPResponse :: HTTPResponse

datatype error = TusError Error | GoError string

text \<open>
  Modelled from the spec: the constructor \<open>NewError\<close> is not among the sources.
  Each catalog error carries a stable code, a message and a default HTTP status;
  the response built here holds that status, the code and message as text body
  and a plain-text content type.
\<close>

definition NewError :: "string \<Rightarrow> string \<Rightarrow> int \<Rightarrow> Error" where
  "NewError errCode message statusCode =
     \<lparr> ErrorCode = errCode, Message = message,
       HTTPResponse = \<lparr> StatusCode = statusCode,
                        Body = errCode @ '': '' @ message @ [CHR 0x0A],
                        Header = [''Content-Type'' \<mapsto> ''text/plain; charset=utf-8''] \<rparr> \<rparr>"

definition UploadLengthDeferred :: string where
  "UploadLengthDeferred = ''1''"

definition CurrentUploadDraftInteropVersion :: string where
  "CurrentUploadDraftInteropVersion = ''4''"

definition ErrUnsupportedVersion :: Error where
  "ErrUnsupportedVersion = NewError ''ERR_UNSUPPORTED_VERSION'' ''missing, invalid or unsupported Tus-Resumable header'' 412"

definition ErrMaxSizeExceeded :: Error where
  "ErrMaxSizeExceeded = NewError ''ERR_MAX_SIZE_EXCEEDED'' ''maximum size exceeded'' 413"

definition ErrInvalidContentType :: Error where
  "ErrInvalidContentType = NewError ''ERR_INVALID_CONTENT_TYPE'' ''missing or invalid Content-Type header'' 400"

definition ErrInvalidUploadLength :: Error where
  "ErrInvalidUploadLength = NewError ''ERR_INVALID_UPLOAD_LENGTH'' ''missing or invalid Upload-Length header'' 400"

definition ErrInvalidOffset :: Error where
  "ErrInvalidOffset = NewError ''ERR_INVALID_OFFSET'' ''missing or invalid Upload-Offset header'' 400"

definition ErrNotFound :: Error where
  "ErrNotFound = NewError ''ERR_UPLOAD_NOT_FOUND'' ''upload not found'' 404"

definition ErrFileLocked :: Error where
  "ErrFileLocked = NewError ''ERR_UPLOAD_LOCKED'' ''file currently locked'' 423"

definition ErrLockTimeout :: Error where
  "ErrLockTimeout = NewError ''ERR_LOCK_TIMEOUT'' ''failed to acquire lock before timeout'' 500"

definition ErrMismatchOffset :: Error where
  "ErrMismatchOffset = NewError ''ERR_MISMATCHED_OFFSET'' ''mismatched offset'' 409"

definition ErrSizeExceeded :: Error where
  "ErrSizeExceeded = NewError ''ERR_UPLOAD_SIZE_EXCEEDED'' ''upload's size exceeded'' 413"

definition ErrNotImplemented :: Error where
  "ErrNotImplemented = NewError ''ERR_NOT_IMPLEMENTED'' ''feature not implemented'' 501"

definition ErrUploadNotFinished :: Error where
  "ErrUploadNotFinished = NewError ''ERR_UPLOAD_NOT_FINISHED'' ''one of the partial uploads is not finished'' 400"

definition ErrInvalidConcat :: Error where
  "ErrInvalidConcat = NewError ''ERR_INVALID_CONCAT'' ''invalid Upload-Concat header'' 400"

definition ErrModifyFinal :: Error where
  "ErrModifyFinal = NewError ''ERR_MODIFY_FINAL'' ''modifying a final upload is not allowed'' 403"

definition ErrUploadLengthAndUploadDeferLength :: Error where
  "ErrUploadLengthAndUploadDeferLength = NewError ''ERR_AMBIGUOUS_UPLOAD_LENGTH'' ''provided both Upload-Length and Upload-Defer-Length'' 400"

definition ErrInvalidUploadDeferLength :: Error where
  "ErrInvalidUploadDeferLength = NewError ''ERR_INVALID_UPLOAD_LENGTH_DEFER'' ''invalid Upload-Defer-Length header'' 400"

definition ErrUploadStoppedByServer :: Error where
  "ErrUploadStoppedByServer = NewError ''ERR_UPLOAD_STOPPED'' ''upload has been stopped by server'' 400"

definition ErrUploadRejectedByServer :: Error where
  "ErrUploadRejectedByServer = NewError ''ERR_UPLOAD_REJECTED'' ''upload creation has been rejected by server'' 400"

definition ErrUploadInterrupted :: Error where
  "ErrUploadInterrupted = NewError ''ERR_UPLOAD_INTERRUPTED'' ''upload has been interrupted by another request for this upload resource'' 400"

definition ErrServerShutdown :: Error where
  "ErrServerShutdown = NewError ''ERR_SERVER_SHUTDOWN'' ''request has been interrupted because the server is shutting down'' 503"

definition ErrOriginNotAllowed :: Error where
  "ErrOriginNotAllowed = NewError ''ERR_ORIGIN_NOT_ALLOWED'' ''request origin is not allowed'' 403"

definition ErrReadTimeout :: Error where
  "ErrReadTimeout = NewError ''ERR_READ_TIMEOUT'' ''timeout while reading request body'' 500"

definition ErrConnectionReset :: Error where
  "ErrConnectionReset = NewError ''ERR_CONNECTION_RESET'' ''TCP connection reset by peer'' 500"

section \<open>Standard library functions the handler calls\<close>

subsection \<open>strconv.ParseInt(s, 10, 64) and strconv.FormatInt(i, 10)\<close>

datatype NumError = ErrSyntax | ErrRange

definition isDigit :: "char \<Rightarrow> bool" where
  "isDigit c = (48 \<le> (of_char c :: nat) \<and> (of_char c :: nat) \<le> 57)"

text \<open>
  The loop of \<open>ParseUint\<close> in base 10 and 64 bits, over the value \<open>n\<close> read so far: it
  stops with a syntax error at a byte that is no digit, and with the greatest value and
  a range error at the digit with which the number leaves \<open>uint64\<close>.
\<close>

fun ParseUint_loop :: "nat \<Rightarrow> string \<Rightarrow> nat \<times> NumError option" where
  "ParseUint_loop n [] = (n, None)"
| "ParseUint_loop n (c # cs) =
     (if \<not> isDigit c then (0, Some ErrSyntax)
      else if n \<ge> (2 ^ 64 - 1) div 10 + 1 then (2 ^ 64 - 1, Some ErrRange)
      else if n * 10 + (of_char c - 48) > 2 ^ 64 - 1 then (2 ^ 64 - 1, Some ErrRange)
      else ParseUint_loop (n * 10 + (of_char c - 48)) cs)"

definition ParseUint :: "string \<Rightarrow> nat \<times> NumError option" where
  "ParseUint s = (if s = [] then (0, Some ErrSyntax) else ParseUint_loop 0 s)"

text \<open>
  \<open>ParseInt\<close> picks off a leading sign and converts the rest as an unsigned number. It
  returns the value and the error: 0 with a syntax error (empty input, a sign alone, a
  byte that is no digit), the nearest bound with a range error.
\<close>

definition ParseInt :: "string \<Rightarrow> int64 \<times> NumError option" where
  "ParseInt s =
     (case s of
        [] \<Rightarrow> (0, Some ErrSyntax)
      | c # cs \<Rightarrow>
          (let neg = (c = CHR ''-'');
               ds = (if c = CHR ''+'' \<or> c = CHR ''-'' then cs else s)
           in case ParseUint ds of
                (un, Some ErrSyntax) \<Rightarrow> (0, Some ErrSyntax)
              | (un, _) \<Rightarrow>
                  if \<not> neg \<and> un \<ge> 2 ^ 63 then (MaxInt64, Some ErrRange)
                  else if neg \<and> un > 2 ^ 63 then (- MaxInt64 - 1, Some ErrRange)
                  else (if neg then - (word_of_nat un) else word_of_nat un, None)))"

text \<open>The decimal digits of a number, read from the table of digits as \<open>FormatInt\<close> does.\<close>

function natDigits :: "nat \<Rightarrow> string" where
  "natDigits n =
     (if n < 10 then [''0123456789'' ! n]
      else natDigits (n div 10) @ [''0123456789'' ! (n mod 10)])"
  by pat_completeness auto
termination
  by (relation "measure id") auto

declare natDigits.simps [simp del]

definition FormatInt :: "int64 \<Rightarrow> string" where
  "FormatInt i = (if sint i < 0 then CHR ''-'' # natDigits (nat (- sint i)) else natDigits (nat (sint i)))"

subsection \<open>strings.Split, strings.HasPrefix, strings.TrimSpace\<close>

text \<open>\<open>strings.Split(s, sep)\<close> for a separator of one byte: the pieces between the separators, \<open>[""]\<close> for the empty string.\<close>

fun Split :: "string \<Rightarrow> char \<Rightarrow> string list" where
  "Split [] sep = [[]]"
| "Split (c # cs) sep =
     (if c = sep then [] # Split cs sep
      else (case Split cs sep of [] \<Rightarrow> [[c]] | x # xs \<Rightarrow> (c # x) # xs))"

definition HasPrefix :: "string \<Rightarrow> string \<Rightarrow> bool" where
  "HasPrefix s p = (take (length p) s = p)"

text \<open>
  \<open>strings.TrimSpace\<close> removes leading and trailing white space as Unicode defines it.
  On the bytes of the string these are the six ASCII characters and the UTF-8 encodings of
  U+0085, U+00A0, U+1680, U+2000 to U+200A, U+2028, U+2029, U+202F, U+205F and U+3000;
  a byte sequence that is not valid UTF-8 decodes to U+FFFD, which is no white space.
\<close>

definition asciiSpace :: "char \<Rightarrow> bool" where
  "asciiSpace c = (c = CHR 0x09 \<or> c = CHR 0x0A \<or> c = CHR 0x0B \<or> c = CHR 0x0C \<or> c = CHR 0x0D \<or> c = CHR 0x20)"

definition spaceRunes :: "string list" where
  "spaceRunes =
     [[CHR 0x09], [CHR 0x0A], [CHR 0x0B], [CHR 0x0C], [CHR 0x0D], [CHR 0x20],
      [CHR 0xC2, CHR 0x85], [CHR 0xC2, CHR 0xA0],
      [CHR 0xE1, CHR 0x9A, CHR 0x80],
      [CHR 0xE2, CHR 0x80, CHR 0x80], [CHR 0xE2, CHR 0x80, CHR 0x81], [CHR 0xE2, CHR 0x80, CHR 0x82],
      [CHR 0xE2, CHR 0x80, CHR 0x83], [CHR 0xE2, CHR 0x80, CHR 0x84], [CHR 0xE2, CHR 0x80, CHR 0x85],
      [CHR 0xE2, CHR 0x80, CHR 0x86], [CHR 0xE2, CHR 0x80, CHR 0x87], [CHR 0xE2, CHR 0x80, CHR 0x88],
      [CHR 0xE2, CHR 0x80, CHR 0x89], [CHR 0xE2, CHR 0x80, CHR 0x8A],
      [CHR 0xE2, CHR 0x80, CHR 0xA8], [CHR 0xE2, CHR 0x80, CHR 0xA9], [CHR 0xE2, CHR 0x80, CHR 0xAF],
      [CHR 0xE2, CHR 0x81, CHR 0x9F],
      [CHR 0xE3, CHR 0x80, CHR 0x80]]"

text \<open>The number of bytes of the white-space rune the string starts with, 0 when it starts with none.\<close>

definition leadingSpace :: "string list \<Rightarrow> string \<Rightarrow> nat" where
  "leadingSpace runes s =
     (case filter (\<lambda>t. take (length t) s = t) runes of [] \<Rightarrow> 0 | t # _ \<Rightarrow> length t)"

function TrimLeftRunes :: "string list \<Rightarrow> string \<Rightarrow> string" where
  "TrimLeftRunes runes s =
     (if leadingSpace runes s = 0 then s else TrimLeftRunes runes (drop (leadingSpace runes s) s))"
  by pat_completeness auto
termination
proof (relation "measure (\<lambda>(runes, s). length s)")
  show "wf (measure (\<lambda>(runes :: string list, s :: string). length s))"
    by simp
next
  fix runes :: "string list" and s :: string
  assume pos: "leadingSpace runes s \<noteq> 0"
  then obtain t ts where f: "filter (\<lambda>t. take (length t) s = t) runes = t # ts"
    by (auto simp: leadingSpace_def split: list.splits)
  then have "t \<in> set (filter (\<lambda>t. take (length t) s = t) runes)"
    by simp
  then have t: "take (length t) s = t"
    by simp
  from pos f have n: "leadingSpace runes s = length t" and "t \<noteq> []"
    by (auto simp: leadingSpace_def)
  with t have "s \<noteq> []"
    by auto
  with n \<open>t \<noteq> []\<close> show "((runes, drop (leadingSpace runes s) s), (runes, s)) \<in> measure (\<lambda>(runes, s). length s)"
    by simp
qed

declare TrimLeftRunes.simps [simp del]

definition TrimSpace :: "string \<Rightarrow> string" where
  "TrimSpace s = rev (TrimLeftRunes (map rev spaceRunes) (rev (TrimLeftRunes spaceRunes s)))"

subsection \<open>base64.StdEncoding\<close>

definition encodeStd :: string where
  "encodeStd = ''ABCDEFGHIJKLMNOPQRSTUVWXYZabcdefghijklmnopqrstuvwxyz0123456789+/''"

text \<open>The encoder's table lookup \<open>enc.encode[i]\<close>, used at indices below 64 only.\<close>

definition encodeChar :: "nat \<Rightarrow> char" where
  "encodeChar i = encodeStd ! i"

text \<open>
  \<open>EncodeToString\<close>: three bytes give four characters; one or two remaining bytes
  are padded with \<open>=\<close>.
\<close>

fun EncodeToString :: "string \<Rightarrow> string" where
  "EncodeToString [] = []"
| "EncodeToString [a] =
     (let v = of_char a * 65536
      in [encodeChar (v div 262144 mod 64), encodeChar (v div 4096 mod 64), CHR ''='', CHR ''=''])"
| "EncodeToString [a, b] =
     (let v = of_char a * 65536 + of_char b * 256
      in [encodeChar (v div 262144 mod 64), encodeChar (v div 4096 mod 64),
          encodeChar (v div 64 mod 64), CHR ''=''])"
| "EncodeToString (a # b # c # rest) =
     (let v = of_char a * 65536 + of_char b * 256 + of_char c
      in [encodeChar (v div 262144 mod 64), encodeChar (v div 4096 mod 64),
          encodeChar (v div 64 mod 64), encodeChar (v mod 64)] @ EncodeToString rest)"

fun indexOf :: "char \<Rightarrow> string \<Rightarrow> nat option" where
  "indexOf c [] = None"
| "indexOf c (x # xs) = (if c = x then Some 0 else map_option Suc (indexOf c xs))"

text \<open>The decoder's table \<open>enc.decodeMap\<close>: the index of a character of the alphabet, \<open>None\<close> (0xff) for any other byte.\<close>

definition decodeMap :: "char \<Rightarrow> nat option" where
  "decodeMap c = indexOf c encodeStd"

text \<open>
  The decoder reads quanta of four characters. The last quantum may end in \<open>==\<close> or
  \<open>=\<close>; padding anywhere else, a character outside the alphabet, a length that is no
  multiple of four and anything after the padding are errors (\<open>None\<close>).
\<close>

fun decodeQuanta :: "string \<Rightarrow> string option" where
  "decodeQuanta [] = Some []"
| "decodeQuanta [a] = None"
| "decodeQuanta [a, b] = None"
| "decodeQuanta [a, b, c] = None"
| "decodeQuanta (a # b # c # d # rest) =
     (case decodeMap a of None \<Rightarrow> None | Some x0 \<Rightarrow>
      case decodeMap b of None \<Rightarrow> None | Some x1 \<Rightarrow>
        if c = CHR ''='' then
          (if d = CHR ''='' \<and> rest = []
           then Some [char_of ((x0 * 262144 + x1 * 4096) div 65536)]
           else None)
        else
          (case decodeMap c of None \<Rightarrow> None | Some x2 \<Rightarrow>
             if d = CHR ''='' then
               (if rest = []
                then Some [char_of ((x0 * 262144 + x1 * 4096 + x2 * 64) div 65536),
                           char_of ((x0 * 262144 + x1 * 4096 + x2 * 64) div 256)]
                else None)
             else
               (case decodeMap d of None \<Rightarrow> None | Some x3 \<Rightarrow>
                  (case decodeQuanta rest of None \<Rightarrow> None
                   | Some bs \<Rightarrow>
                       Some ([char_of ((x0 * 262144 + x1 * 4096 + x2 * 64 + x3) div 65536),
                              char_of ((x0 * 262144 + x1 * 4096 + x2 * 64 + x3) div 256),
                              char_of (x0 * 262144 + x1 * 4096 + x2 * 64 + x3)] @ bs)))))"

text \<open>\<open>DecodeString\<close>: carriage returns and line feeds in the input are skipped; \<open>None\<close> is a \<open>CorruptInputError\<close>.\<close>

definition DecodeString :: "string \<Rightarrow> string option" where
  "DecodeString s = decodeQuanta (filter (\<lambda>c. c \<noteq> CHR 0x0A \<and> c \<noteq> CHR 0x0D) s)"

section \<open>Header grammars\<close>

subsection \<open>Upload-Metadata\<close>

text \<open>
  The loop of \<open>ParseMetadataHeader\<close> over the elements between the commas. An element
  of more than two parts, one with an empty key and one whose value is no valid base64
  are skipped (\<open>continue\<close>).
\<close>

fun ParseMetadataHeader_loop :: "string list \<Rightarrow> (string \<rightharpoonup> string) \<Rightarrow> (string \<rightharpoonup> string)" where
  "ParseMetadataHeader_loop [] meta = meta"
| "ParseMetadataHeader_loop (element # elements) meta =
     (let parts = Split (TrimSpace element) CHR '' ''
      in if length parts > 2 then ParseMetadataHeader_loop elements meta
         else (let key = parts ! 0
               in if key = [] then ParseMetadataHeader_loop elements meta
                  else if length parts = 2 then
                    (case DecodeString (parts ! 1) of
                       None \<Rightarrow> ParseMetadataHeader_loop elements meta
                     | Some dec \<Rightarrow> ParseMetadataHeader_loop elements (meta(key \<mapsto> dec)))
                  else ParseMetadataHeader_loop elements (meta(key \<mapsto> []))))"

definition ParseMetadataHeader :: "string \<Rightarrow> (string \<rightharpoonup> string)" where
  "ParseMetadataHeader header = ParseMetadataHeader_loop (Split header CHR '','') Map.empty"

text \<open>
  \<open>SerializeMetadataHeader\<close> ranges over a Go map, in an order the language leaves
  open: the argument is the list of the map's entries in the order of the iteration.
\<close>

definition SerializeMetadataHeader :: "(string \<times> string) list \<Rightarrow> string" where
  "SerializeMetadataHeader meta =
     (let header = foldl (\<lambda>header (key, val). header @ key @ '' '' @ EncodeToString val @ '','') [] meta
      in if length header > 0 then take (length header - 1) header else header)"

subsection \<open>Path IDs and Upload-Concat\<close>

text \<open>
  \<open>extractIDFromPath\<close> matches \<open>ReExtractFileID = ([^/]+)\/?$\<close>: the leftmost match
  is the last run of bytes other than \<open>/\<close>, after at most one trailing \<open>/\<close>. There is
  no match when that run is empty (the empty string, \<open>/\<close>, a string ending in \<open>//\<close>).
\<close>

definition extractIDFromPath :: "string \<Rightarrow> error + string" where
  "extractIDFromPath url =
     (let s = (if url \<noteq> [] \<and> last url = CHR ''/'' then butlast url else url);
          seg = rev (takeWhile (\<lambda>c. c \<noteq> CHR ''/'') (rev s))
      in if seg = [] then Inl (TusError ErrNotFound) else Inr seg)"

text \<open>
  The loop of \<open>parseConcat\<close> over the items of a final header. It returns the IDs
  collected and the error of the item at which it returned early, if any.
\<close>

fun parseConcat_loop :: "string list \<Rightarrow> string list \<Rightarrow> string list \<times> error option" where
  "parseConcat_loop [] partialUploads = (partialUploads, None)"
| "parseConcat_loop (v # vs) partialUploads =
     (let val = TrimSpace v
      in if val = [] then parseConcat_loop vs partialUploads
         else (case extractIDFromPath val of
                 Inl extractErr \<Rightarrow> (partialUploads, Some extractErr)
               | Inr fileID \<Rightarrow> parseConcat_loop vs (partialUploads @ [fileID])))"

text \<open>\<open>parseConcat\<close> returns \<open>(isPartial, isFinal, partialUploads, err)\<close>.\<close>

definition parseConcat :: "string \<Rightarrow> bool \<times> bool \<times> string list \<times> error option" where
  "parseConcat header =
     (if length header = 0 then (False, False, [], None)
      else if header = ''partial'' then (True, False, [], None)
      else (let l = length ''final;''
            in if HasPrefix header ''final;'' \<and> length header > l then
                 (case parseConcat_loop (Split (drop l header) CHR '' '') [] of
                    (partialUploads, Some extractErr) \<Rightarrow> (False, True, partialUploads, Some extractErr)
                  | (partialUploads, None) \<Rightarrow>
                      if length partialUploads = 0
                      then (False, False, partialUploads, Some (TusError ErrInvalidConcat))
                      else (False, True, partialUploads, None))
               else (False, False, [], Some (TusError ErrInvalidConcat))))"

section \<open>Uploads, requests and the collaborators of the handler\<close>

record FileInfo =
  ID :: string
  Size :: int64
  SizeIsDeferred :: bool
  Offset :: int64
  MetaData :: "string \<rightharpoonup> string"
  IsPartial :: bool
  IsFinal :: bool
  PartialUploads :: "string list"
  Storage :: "string \<rightharpoonup> string"

text \<open>The changes a pre-create hook returns; \<open>None\<close> is a nil map.\<close>

record FileInfoChanges =
  ChangesID :: string
  ChangesMetaData :: "(string \<rightharpoonup> string) option"
  ChangesStorage :: "(string \<rightharpoonup> string) option"

text \<open>
  The parts of \<open>http.Request\<close> the handler reads. \<open>ContentLength\<close> is -1 when the
  length is unknown; \<open>ReqBody\<close> is \<open>None\<close> for a nil body.
\<close>

record Request =
  Method :: string
  URLPath :: string
  ReqHeader :: "string \<rightharpoonup> string"
  ContentLength :: int64
  ReqBody :: "string option"
  Host :: string
  TLS :: bool

text \<open>\<open>r.Header.Get(name)\<close>: the empty string for a header that is not set.\<close>

definition Get :: "Request \<Rightarrow> string \<Rightarrow> string" where
  "Get r name = (case ReqHeader r name of None \<Rightarrow> [] | Some v \<Rightarrow> v)"

text \<open>An upload object of the store is named by a handle; a lock by the ID it guards.\<close>

type_synonym Upload = string

text \<open>
  Modelled from the spec: \<open>models.BodyReader\<close> is not among the sources. It is the bounded
  reader over the request body that caps the bytes read at \<open>maxSize\<close>; what the store
  reads through it, and the error the reader records meanwhile, belong to \<open>WriteChunk\<close> below.
\<close>

record BodyReader =
  ReaderMaxSize :: int64
  ReaderBody :: string

text \<open>
  Every call the handler makes to a collaborator (the store, the locker, a hook, a
  notification channel, the response writer), in the order of the calls.
\<close>

datatype Call =
    CallNewLock string
  | CallLock string
  | CallUnlock string
  | CallNewUpload FileInfo
  | CallGetUpload string
  | CallGetInfo Upload
  | CallWriteChunk Upload int64 BodyReader
  | CallFinishUpload Upload
  | CallTerminate Upload
  | CallConcatUploads Upload "Upload list"
  | CallDeclareLength Upload int64
  | CallPreUploadCreateCallback FileInfo
  | CallPreFinishResponseCallback FileInfo
  | SendCreatedUploads FileInfo
  | SendCompleteUploads FileInfo
  | SendTerminatedUploads FileInfo
  | WriteInformational string
  | WriteResponse HTTPResponse

text \<open>
  The store composer: the capability flags and the operations of the data store and the
  locker behind them. The collaborators are external; each operation is a function on
  their state \<open>'s\<close>, which the handler threads through its calls. \<open>WriteChunk\<close> returns
  the bytes written, the store's error and the error the body reader recorded
  (\<open>c.Body.HasError()\<close>).
\<close>

record 's StoreComposer =
  UsesTerminater :: bool
  UsesConcater :: bool
  UsesLengthDeferrer :: bool
  UsesLocker :: bool
  NewUpload :: "FileInfo \<Rightarrow> 's \<Rightarrow> (error + Upload) \<times> 's"
  GetUpload :: "string \<Rightarrow> 's \<Rightarrow> (error + Upload) \<times> 's"
  GetInfo :: "Upload \<Rightarrow> 's \<Rightarrow> (error + FileInfo) \<times> 's"
  WriteChunk :: "Upload \<Rightarrow> int64 \<Rightarrow> BodyReader \<Rightarrow> 's \<Rightarrow> (int64 \<times> error option \<times> error option) \<times> 's"
  FinishUpload :: "Upload \<Rightarrow> 's \<Rightarrow> error option \<times> 's"
  Terminate :: "Upload \<Rightarrow> 's \<Rightarrow> error option \<times> 's"
  ConcatUploads :: "Upload \<Rightarrow> Upload list \<Rightarrow> 's \<Rightarrow> error option \<times> 's"
  DeclareLength :: "Upload \<Rightarrow> int64 \<Rightarrow> 's \<Rightarrow> error option \<times> 's"
  NewLock :: "string \<Rightarrow> 's \<Rightarrow> error option \<times> 's"
  LockLock :: "string \<Rightarrow> 's \<Rightarrow> error option \<times> 's"
  LockUnlock :: "string \<Rightarrow> 's \<Rightarrow> unit \<times> 's"

text \<open>
  The configuration fields the handlers read. A hook that is not configured is \<open>None\<close>.
  Modelled from the spec: the packages \<open>s3\<close> and \<open>s3store\<close> are not among the sources;
  \<open>S3Composer bucketName endpoint\<close> is the composer of the store that the store-selection
  hook builds for a bucket and an endpoint (the configured service for the empty endpoint).
\<close>

record 's Config =
  MaxSize :: int64
  EnableExperimentalProtocol :: bool
  RespectForwardedHeaders :: bool
  NotifyCreatedUploads :: bool
  NotifyCompleteUploads :: bool
  NotifyTerminatedUploads :: bool
  PreUploadCreateCallback ::
    "(FileInfo \<times> Request \<Rightarrow> 's \<Rightarrow> (error + HTTPResponse \<times> FileInfoChanges) \<times> 's) option"
  PreFinishResponseCallback ::
    "(FileInfo \<times> Request \<Rightarrow> 's \<Rightarrow> (error + HTTPResponse) \<times> 's) option"
  S3Composer :: "string \<Rightarrow> string \<Rightarrow> 's StoreComposer"
  ParseMediaType :: "string \<Rightarrow> error + string \<times> (string \<rightharpoonup> string)"

record 's UnroutedHandler =
  config :: "'s Config"
  composer :: "'s StoreComposer"
  isBasePathAbs :: bool
  basePath :: string

text \<open>The state of the collaborators and the calls made so far.\<close>

record 's World =
  ext :: 's
  calls :: "Call list"

definition perform :: "Call \<Rightarrow> ('s \<Rightarrow> 'a \<times> 's) \<Rightarrow> 's World \<Rightarrow> 'a \<times> 's World" where
  "perform c f w = (case f (ext w) of (a, s) \<Rightarrow> (a, \<lparr> ext = s, calls = calls w @ [c] \<rparr>))"

definition emit :: "Call \<Rightarrow> 's World \<Rightarrow> 's World" where
  "emit c w = w \<lparr> calls := calls w @ [c] \<rparr>"

text \<open>
  Modelled from the spec: \<open>HTTPResponse.MergeWith\<close> is not among the sources. A hook may
  merge its response into the handler's: its status code and body replace the handler's
  when set, and its headers are added to a copy of the handler's.
\<close>

definition MergeWith :: "HTTPResponse \<Rightarrow> HTTPResponse \<Rightarrow> HTTPResponse" where
  "MergeWith resp1 resp2 =
     \<lparr> StatusCode = (if StatusCode resp2 \<noteq> 0 then StatusCode resp2 else StatusCode resp1),
       Body = (if length (Body resp2) > 0 then Body resp2 else Body resp1),
       Header = Header resp1 ++ Header resp2 \<rparr>"

text \<open>
  Modelled from the spec: the method \<open>Error.Is\<close> behind \<open>errors.Is\<close> is not among the
  sources. A stop cause is \<open>ErrUploadStoppedByServer\<close> with the hook's response merged in,
  so two catalog errors are the same error when their codes agree.
\<close>

definition errorsIs :: "error option \<Rightarrow> Error \<Rightarrow> bool" where
  "errorsIs err target =
     (case err of Some (TusError e) \<Rightarrow> ErrorCode e = ErrorCode target | _ \<Rightarrow> False)"

section \<open>The handler\<close>

text \<open>
  Logging, metrics, the network deadlines and the progress notifications of the emitter
  task are outside this model: they do not change what a handler returns or which calls
  it makes to the store.
\<close>

subsection \<open>Helpers\<close>

definition isResumableUploadDraftRequest :: "'s UnroutedHandler \<Rightarrow> Request \<Rightarrow> bool" where
  "isResumableUploadDraftRequest handler r =
     (EnableExperimentalProtocol (config handler)
      \<and> Get r ''Upload-Draft-Interop-Version'' = CurrentUploadDraftInteropVersion)"

text \<open>The preamble of every handler: a request that names a bucket rebinds the handler's composer.\<close>

definition selectStore :: "'s UnroutedHandler \<Rightarrow> Request \<Rightarrow> 's UnroutedHandler" where
  "selectStore handler r =
     (let bucketName = Get r ''bucket-name'';
          endpoint = Get r ''endpoint''
      in if bucketName \<noteq> []
         then handler \<lparr> composer := S3Composer (config handler) bucketName endpoint \<rparr>
         else handler)"

definition sendResp :: "HTTPResponse \<Rightarrow> 's World \<Rightarrow> 's World" where
  "sendResp resp w = emit (WriteResponse resp) w"

definition sendError :: "Request \<Rightarrow> error \<Rightarrow> 's World \<Rightarrow> 's World" where
  "sendError r err w =
     (let detailedErr =
            (case err of
               TusError e \<Rightarrow> e
             | GoError msg \<Rightarrow> NewError ''ERR_INTERNAL_SERVER_ERROR'' msg 500);
          detailedErr' =
            (if Method r = ''HEAD''
             then detailedErr \<lparr> HTTPResponse := (HTTPResponse detailedErr) \<lparr> Body := [] \<rparr> \<rparr>
             else detailedErr)
      in sendResp (HTTPResponse detailedErr') w)"

definition lockUpload :: "'s UnroutedHandler \<Rightarrow> string \<Rightarrow> 's World \<Rightarrow> (error + string) \<times> 's World" where
  "lockUpload handler fileID w =
     (case perform (CallNewLock fileID) (NewLock (composer handler) fileID) w of
        (Some err, w1) \<Rightarrow> (Inl err, w1)
      | (None, w1) \<Rightarrow>
          (case perform (CallLock fileID) (LockLock (composer handler) fileID) w1 of
             (Some err, w2) \<Rightarrow> (Inl err, w2)
           | (None, w2) \<Rightarrow> (Inr fileID, w2)))"

text \<open>
  The block \<open>if handler.composer.UsesLocker { lock, err := handler.lockUpload(c, id); ...;
  defer lock.Unlock() }\<close> of the handlers: \<open>acquireLock\<close> is the block, \<open>releaseLock\<close> the
  deferred call, which runs when the handler returns.
\<close>

definition acquireLock :: "'s UnroutedHandler \<Rightarrow> string \<Rightarrow> 's World \<Rightarrow> error option \<times> 's World" where
  "acquireLock handler fileID w =
     (if UsesLocker (composer handler)
      then (case lockUpload handler fileID w of
              (Inl err, w1) \<Rightarrow> (Some err, w1)
            | (Inr lock, w1) \<Rightarrow> (None, w1))
      else (None, w))"

definition releaseLock :: "'s UnroutedHandler \<Rightarrow> string \<Rightarrow> 's World \<Rightarrow> 's World" where
  "releaseLock handler fileID w =
     (if UsesLocker (composer handler)
      then snd (perform (CallUnlock fileID) (LockUnlock (composer handler) fileID) w)
      else w)"

definition terminateUpload :: "'s UnroutedHandler \<Rightarrow> Upload \<Rightarrow> FileInfo \<Rightarrow> 's World \<Rightarrow> error option \<times> 's World" where
  "terminateUpload handler upload info w =
     (case perform (CallTerminate upload) (Terminate (composer handler) upload) w of
        (Some err, w1) \<Rightarrow> (Some err, w1)
      | (None, w1) \<Rightarrow>
          (None, if NotifyTerminatedUploads (config handler)
                 then emit (SendTerminatedUploads info) w1 else w1))"

subsection \<open>The chunk transfer engine\<close>

definition finishUploadIfComplete ::
  "'s UnroutedHandler \<Rightarrow> Request \<Rightarrow> HTTPResponse \<Rightarrow> Upload \<Rightarrow> FileInfo \<Rightarrow> 's World
   \<Rightarrow> (HTTPResponse \<times> error option) \<times> 's World" where
  "finishUploadIfComplete handler r resp upload info w =
     (if \<not> SizeIsDeferred info \<and> Offset info = Size info then
        (case perform (CallFinishUpload upload) (FinishUpload (composer handler) upload) w of
           (Some err, w1) \<Rightarrow> ((resp, Some err), w1)
         | (None, w1) \<Rightarrow>
             (case (case PreFinishResponseCallback (config handler) of
                      None \<Rightarrow> ((resp, None), w1)
                    | Some callback \<Rightarrow>
                        (case perform (CallPreFinishResponseCallback info) (callback (info, r)) w1 of
                           (Inl err, w2) \<Rightarrow> ((resp, Some err), w2)
                         | (Inr resp2, w2) \<Rightarrow> ((MergeWith resp resp2, None), w2))) of
                ((resp', Some err), w2) \<Rightarrow> ((resp', Some err), w2)
              | ((resp', None), w2) \<Rightarrow>
                  ((resp', None),
                   if NotifyCompleteUploads (config handler)
                   then emit (SendCompleteUploads info) w2 else w2)))
      else ((resp, None), w))"

text \<open>The write budget of \<open>writeChunk\<close>: the value of \<open>maxSize\<close> when the body reader is installed.\<close>

definition writeChunk_maxSize :: "'s UnroutedHandler \<Rightarrow> Request \<Rightarrow> FileInfo \<Rightarrow> int64" where
  "writeChunk_maxSize handler r info =
     (let length = ContentLength r;
          offset = Offset info;
          maxSize = Size info - offset;
          maxSize = (if SizeIsDeferred info
                     then (if 0 <s MaxSize (config handler)
                           then MaxSize (config handler) - offset
                           else MaxInt64)
                     else maxSize);
          maxSize = (if 0 <s length then length else maxSize)
      in maxSize)"

text \<open>
  The transfer of \<open>writeChunk\<close>, run when the request has a body: the reader is installed
  with the budget, the store writes, the reader's error is reported when the store has
  none, and an upload stopped by the server is terminated. It returns \<open>(bytesWritten, err)\<close>.
\<close>

definition writeChunk_transfer ::
  "'s UnroutedHandler \<Rightarrow> Request \<Rightarrow> Upload \<Rightarrow> FileInfo \<Rightarrow> int64 \<Rightarrow> string \<Rightarrow> 's World
   \<Rightarrow> (int64 \<times> error option) \<times> 's World" where
  "writeChunk_transfer handler r upload info maxSize body w =
     (let offset = Offset info;
          reader = \<lparr> ReaderMaxSize = maxSize, ReaderBody = body \<rparr>
      in case perform (CallWriteChunk upload offset reader)
                (WriteChunk (composer handler) upload offset reader) w of
           ((bytesWritten, err, bodyErr), w1) \<Rightarrow>
             (let err' = (if bodyErr \<noteq> None \<and> err = None then bodyErr else err);
                  terminateUpload' = errorsIs bodyErr ErrUploadStoppedByServer;
                  w2 = (if terminateUpload' \<and> UsesTerminater (composer handler)
                        then snd (terminateUpload handler upload info w1) else w1)
              in ((bytesWritten, err'), w2)))"

definition writeChunk ::
  "'s UnroutedHandler \<Rightarrow> Request \<Rightarrow> HTTPResponse \<Rightarrow> Upload \<Rightarrow> FileInfo \<Rightarrow> 's World
   \<Rightarrow> (HTTPResponse \<times> error option) \<times> 's World" where
  "writeChunk handler r resp upload info w =
     (let length = ContentLength r;
          offset = Offset info
      in if \<not> SizeIsDeferred info \<and> Size info <s offset + length
         then ((resp, Some (TusError ErrSizeExceeded)), w)
         else
           (let maxSize = writeChunk_maxSize handler r info
            in case (case ReqBody r of
                       None \<Rightarrow> ((0, None), w)
                     | Some body \<Rightarrow> writeChunk_transfer handler r upload info maxSize body w) of
                 ((bytesWritten, err), w1) \<Rightarrow>
                   (let newOffset = offset + bytesWritten;
                        resp' = resp \<lparr> Header := (Header resp)(''Upload-Offset'' \<mapsto> FormatInt newOffset) \<rparr>;
                        info' = info \<lparr> Offset := newOffset \<rparr>
                    in case finishUploadIfComplete handler r resp' upload info' w1 of
                         ((finishResp, finishErr), w2) \<Rightarrow>
                           if err \<noteq> None then ((resp', err), w2)
                           else ((finishResp, finishErr), w2))))"

subsection \<open>PATCH\<close>

text \<open>
  The block of \<open>PatchFile\<close> that declares the length of a deferred upload from the
  \<open>Upload-Length\<close> header. It returns the error to send, or the upload's info as the
  handler holds it afterwards.
\<close>

definition PatchFile_declareLength ::
  "'s UnroutedHandler \<Rightarrow> Request \<Rightarrow> Upload \<Rightarrow> FileInfo \<Rightarrow> 's World \<Rightarrow> (error + FileInfo) \<times> 's World" where
  "PatchFile_declareLength handler r upload info w =
     (if Get r ''Upload-Length'' \<noteq> [] then
        (if \<not> UsesLengthDeferrer (composer handler) then (Inl (TusError ErrNotImplemented), w)
         else if \<not> SizeIsDeferred info then (Inl (TusError ErrInvalidUploadLength), w)
         else
           (case ParseInt (Get r ''Upload-Length'') of
              (uploadLength, err) \<Rightarrow>
                if err \<noteq> None \<or> uploadLength <s 0 \<or> uploadLength <s Offset info
                   \<or> (0 <s MaxSize (config handler) \<and> MaxSize (config handler) <s uploadLength)
                then (Inl (TusError ErrInvalidUploadLength), w)
                else
                  (case perform (CallDeclareLength upload uploadLength)
                          (DeclareLength (composer handler) upload uploadLength) w of
                     (Some err, w1) \<Rightarrow> (Inl err, w1)
                   | (None, w1) \<Rightarrow>
                       (Inr (info \<lparr> Size := uploadLength, SizeIsDeferred := False \<rparr>), w1))))
      else (Inr info, w))"

text \<open>
  The end of \<open>PatchFile\<close> and of \<open>PostFileV2\<close>: a draft request that completes an upload
  of deferred length declares the offset reached as the length and finishes the upload.
\<close>

definition declareLengthAndFinish ::
  "'s UnroutedHandler \<Rightarrow> Request \<Rightarrow> HTTPResponse \<Rightarrow> Upload \<Rightarrow> 's World \<Rightarrow> 's World" where
  "declareLengthAndFinish handler r resp upload w =
     (case perform (CallGetInfo upload) (GetInfo (composer handler) upload) w of
        (Inl err, w1) \<Rightarrow> sendError r err w1
      | (Inr info, w1) \<Rightarrow>
          (let uploadLength = Offset info
           in case perform (CallDeclareLength upload uploadLength)
                     (DeclareLength (composer handler) upload uploadLength) w1 of
                (Some err, w2) \<Rightarrow> sendError r err w2
              | (None, w2) \<Rightarrow>
                  (let info' = info \<lparr> Size := uploadLength, SizeIsDeferred := False \<rparr>
                   in case finishUploadIfComplete handler r resp upload info' w2 of
                        ((resp', Some err), w3) \<Rightarrow> sendError r err w3
                      | ((resp', None), w3) \<Rightarrow> sendResp resp' w3)))"

text \<open>\<open>PatchFile\<close> from the call of \<open>GetUpload\<close> on: the part that runs under the lock.\<close>

definition PatchFile_locked ::
  "'s UnroutedHandler \<Rightarrow> Request \<Rightarrow> int64 \<Rightarrow> string \<Rightarrow> 's World \<Rightarrow> 's World" where
  "PatchFile_locked handler r offset fileID w =
     (case perform (CallGetUpload fileID) (GetUpload (composer handler) fileID) w of
        (Inl err, w1) \<Rightarrow> sendError r err w1
      | (Inr upload, w1) \<Rightarrow>
          (case perform (CallGetInfo upload) (GetInfo (composer handler) upload) w1 of
             (Inl err, w2) \<Rightarrow> sendError r err w2
           | (Inr info, w2) \<Rightarrow>
               if IsFinal info then sendError r (TusError ErrModifyFinal) w2
               else if offset \<noteq> Offset info then sendError r (TusError ErrMismatchOffset) w2
               else
                 (let resp = \<lparr> StatusCode = 204, Body = [], Header = Map.empty \<rparr>
                  in if \<not> SizeIsDeferred info \<and> Offset info = Size info
                     then sendResp (resp \<lparr> Header := (Header resp)(''Upload-Offset'' \<mapsto> FormatInt offset) \<rparr>) w2
                     else
                       (case PatchFile_declareLength handler r upload info w2 of
                          (Inl err, w3) \<Rightarrow> sendError r err w3
                        | (Inr info', w3) \<Rightarrow>
                            (case writeChunk handler r resp upload info' w3 of
                               ((resp', Some err), w4) \<Rightarrow> sendError r err w4
                             | ((resp', None), w4) \<Rightarrow>
                                 (let isComplete = (Get r ''Upload-Complete'' = ''?1'')
                                  in if isComplete \<and> SizeIsDeferred info'
                                     then declareLengthAndFinish handler r resp' upload w4
                                     else sendResp resp' w4))))))"

text \<open>\<open>PatchFile\<close> returns the handler, whose composer the preamble may have rebound, and the world after the request.\<close>

definition PatchFile :: "'s UnroutedHandler \<Rightarrow> Request \<Rightarrow> 's World \<Rightarrow> 's UnroutedHandler \<times> 's World" where
  "PatchFile handler0 r w =
     (let handler = selectStore handler0 r;
          isTusV1 = (\<not> isResumableUploadDraftRequest handler r)
      in if isTusV1 \<and> Get r ''Content-Type'' \<noteq> ''application/offset+octet-stream''
         then (handler, sendError r (TusError ErrInvalidContentType) w)
         else
           (case ParseInt (Get r ''Upload-Offset'') of
              (offset, err) \<Rightarrow>
                if err \<noteq> None \<or> offset <s 0
                then (handler, sendError r (TusError ErrInvalidOffset) w)
                else
                  (case extractIDFromPath (URLPath r) of
                     Inl err \<Rightarrow> (handler, sendError r err w)
                   | Inr fileID \<Rightarrow>
                       (case acquireLock handler fileID w of
                          (Some err, w1) \<Rightarrow> (handler, sendError r err w1)
                        | (None, w1) \<Rightarrow>
                            (handler, releaseLock handler fileID (PatchFile_locked handler r offset fileID w1))))))"

subsection \<open>POST\<close>

text \<open>\<open>validateNewUploadLengthHeaders\<close> returns \<open>(uploadLength, uploadLengthDeferred, err)\<close>.\<close>

definition validateNewUploadLengthHeaders ::
  "'s UnroutedHandler \<Rightarrow> string \<Rightarrow> string \<Rightarrow> int64 \<times> bool \<times> error option" where
  "validateNewUploadLengthHeaders handler uploadLengthHeader uploadDeferLengthHeader =
     (let haveBothLengthHeaders = (uploadLengthHeader \<noteq> [] \<and> uploadDeferLengthHeader \<noteq> []);
          haveInvalidDeferHeader =
            (uploadDeferLengthHeader \<noteq> [] \<and> uploadDeferLengthHeader \<noteq> UploadLengthDeferred);
          lengthIsDeferred = (uploadDeferLengthHeader = UploadLengthDeferred)
      in if lengthIsDeferred \<and> \<not> UsesLengthDeferrer (composer handler)
         then (0, False, Some (TusError ErrNotImplemented))
         else if haveBothLengthHeaders
         then (0, False, Some (TusError ErrUploadLengthAndUploadDeferLength))
         else if haveInvalidDeferHeader
         then (0, False, Some (TusError ErrInvalidUploadDeferLength))
         else if lengthIsDeferred
         then (0, True, None)
         else
           (case ParseInt uploadLengthHeader of
              (uploadLength, err) \<Rightarrow>
                if err \<noteq> None \<or> uploadLength <s 0
                then (uploadLength, False, Some (TusError ErrInvalidUploadLength))
                else (uploadLength, False, None)))"

text \<open>
  The loop of \<open>sizeOfUploads\<close>: it collects the partial uploads and the sum of their
  sizes, and stops at the first upload that cannot be loaded or is not finished.
\<close>

fun sizeOfUploads_loop ::
  "'s UnroutedHandler \<Rightarrow> string list \<Rightarrow> Upload list \<Rightarrow> int64 \<Rightarrow> 's World
   \<Rightarrow> (error + Upload list \<times> int64) \<times> 's World" where
  "sizeOfUploads_loop handler [] partialUploads size' w = (Inr (partialUploads, size'), w)"
| "sizeOfUploads_loop handler (fileID # ids) partialUploads size' w =
     (case perform (CallGetUpload fileID) (GetUpload (composer handler) fileID) w of
        (Inl err, w1) \<Rightarrow> (Inl err, w1)
      | (Inr upload, w1) \<Rightarrow>
          (case perform (CallGetInfo upload) (GetInfo (composer handler) upload) w1 of
             (Inl err, w2) \<Rightarrow> (Inl err, w2)
           | (Inr info, w2) \<Rightarrow>
               if SizeIsDeferred info \<or> Offset info \<noteq> Size info
               then (Inl (TusError ErrUploadNotFinished), w2)
               else sizeOfUploads_loop handler ids (partialUploads @ [upload]) (size' + Size info) w2))"

definition sizeOfUploads ::
  "'s UnroutedHandler \<Rightarrow> string list \<Rightarrow> 's World \<Rightarrow> (error + Upload list \<times> int64) \<times> 's World" where
  "sizeOfUploads handler ids w = sizeOfUploads_loop handler ids [] 0 w"

text \<open>
  The leftmost match of \<open>ReForwardedHost = host="?([^;"]+)\<close>, its group: after
  \<open>host=\<close> and a quote, if there is one, the bytes up to the next \<open>;\<close> or quote, at
  least one.
\<close>

fun ReForwardedHost_group :: "string \<Rightarrow> string option" where
  "ReForwardedHost_group [] = None"
| "ReForwardedHost_group (c # cs) =
     (if HasPrefix (c # cs) ''host=''
      then (let rest = drop 5 (c # cs);
                rest' = (case rest of [] \<Rightarrow> rest | q # qs \<Rightarrow> if q = CHR 0x22 then qs else rest);
                g = takeWhile (\<lambda>x. x \<noteq> CHR '';'' \<and> x \<noteq> CHR 0x22) rest'
            in if g \<noteq> [] then Some g else ReForwardedHost_group cs)
      else ReForwardedHost_group cs)"

text \<open>The leftmost match of \<open>ReForwardedProto = proto=(https?)\<close>, its group.\<close>

fun ReForwardedProto_group :: "string \<Rightarrow> string option" where
  "ReForwardedProto_group [] = None"
| "ReForwardedProto_group (c # cs) =
     (if HasPrefix (c # cs) ''proto=https'' then Some ''https''
      else if HasPrefix (c # cs) ''proto=http'' then Some ''http''
      else ReForwardedProto_group cs)"

text \<open>\<open>getHostAndProtocol\<close> returns \<open>(host, proto)\<close>.\<close>

definition getHostAndProtocol :: "Request \<Rightarrow> bool \<Rightarrow> string \<times> string" where
  "getHostAndProtocol r allowForwarded =
     (let proto = (if TLS r then ''https'' else ''http'');
          host = Host r
      in if \<not> allowForwarded then (host, proto)
         else
           (let host = (if Get r ''X-Forwarded-Host'' \<noteq> [] then Get r ''X-Forwarded-Host'' else host);
                proto = (if Get r ''X-Forwarded-Proto'' = ''http'' \<or> Get r ''X-Forwarded-Proto'' = ''https''
                         then Get r ''X-Forwarded-Proto'' else proto);
                h = Get r ''Forwarded''
            in if h \<noteq> []
               then (case ReForwardedHost_group h of None \<Rightarrow> host | Some g \<Rightarrow> g,
                     case ReForwardedProto_group h of None \<Rightarrow> proto | Some g \<Rightarrow> g)
               else (host, proto)))"

definition absFileURL :: "'s UnroutedHandler \<Rightarrow> Request \<Rightarrow> string \<Rightarrow> string" where
  "absFileURL handler r fileID =
     (if isBasePathAbs handler then basePath handler @ fileID
      else (case getHostAndProtocol r (RespectForwardedHeaders (config handler)) of
              (host, proto) \<Rightarrow> proto @ ''://'' @ host @ basePath handler @ fileID))"

text \<open>
  The pre-create hook of \<open>PostFile\<close> and \<open>PostFileV2\<close>: its response is merged into the
  handler's, and the ID, metadata and storage it returns replace the upload's.
\<close>

definition preUploadCreate ::
  "'s UnroutedHandler \<Rightarrow> Request \<Rightarrow> HTTPResponse \<Rightarrow> FileInfo \<Rightarrow> 's World
   \<Rightarrow> (error + HTTPResponse \<times> FileInfo) \<times> 's World" where
  "preUploadCreate handler r resp info w =
     (case PreUploadCreateCallback (config handler) of
        None \<Rightarrow> (Inr (resp, info), w)
      | Some callback \<Rightarrow>
          (case perform (CallPreUploadCreateCallback info) (callback (info, r)) w of
             (Inl err, w1) \<Rightarrow> (Inl err, w1)
           | (Inr (resp2, changes), w1) \<Rightarrow>
               (let info1 = (if ChangesID changes \<noteq> [] then info \<lparr> ID := ChangesID changes \<rparr> else info);
                    info2 = (case ChangesMetaData changes of None \<Rightarrow> info1
                             | Some m \<Rightarrow> info1 \<lparr> MetaData := m \<rparr>);
                    info3 = (case ChangesStorage changes of None \<Rightarrow> info2
                             | Some m \<Rightarrow> info2 \<lparr> Storage := m \<rparr>)
                in (Inr (MergeWith resp resp2, info3), w1))))"

text \<open>\<open>PostFile\<close> from the parsing of the metadata on, for a request that passed the validation.\<close>

definition PostFile_create ::
  "'s UnroutedHandler \<Rightarrow> Request \<Rightarrow> bool \<Rightarrow> bool \<Rightarrow> bool \<Rightarrow> string list \<Rightarrow> Upload list
   \<Rightarrow> int64 \<Rightarrow> bool \<Rightarrow> 's World \<Rightarrow> 's World" where
  "PostFile_create handler r containsChunk isPartial isFinal partialUploadIDs partialUploads size' sizeIsDeferred w =
     (let meta = ParseMetadataHeader (Get r ''Upload-Metadata'');
          info = \<lparr> ID = [], Size = size', SizeIsDeferred = sizeIsDeferred, Offset = 0,
                   MetaData = meta, IsPartial = isPartial, IsFinal = isFinal,
                   PartialUploads = partialUploadIDs, Storage = Map.empty \<rparr>;
          resp = \<lparr> StatusCode = 201, Body = [], Header = Map.empty \<rparr>
      in case preUploadCreate handler r resp info w of
           (Inl err, w1) \<Rightarrow> sendError r err w1
         | (Inr (resp1, info1), w1) \<Rightarrow>
             (case perform (CallNewUpload info1) (NewUpload (composer handler) info1) w1 of
                (Inl err, w2) \<Rightarrow> sendError r err w2
              | (Inr upload, w2) \<Rightarrow>
                  (case perform (CallGetInfo upload) (GetInfo (composer handler) upload) w2 of
                     (Inl err, w3) \<Rightarrow> sendError r err w3
                   | (Inr info2, w3) \<Rightarrow>
                       (let fileID = ID info2;
                            url = absFileURL handler r fileID;
                            resp2 = resp1 \<lparr> Header := (Header resp1)(''Location'' \<mapsto> url) \<rparr>;
                            w4 = (if NotifyCreatedUploads (config handler)
                                  then emit (SendCreatedUploads info2) w3 else w3)
                        in case (if isFinal then
                                   (case perform (CallConcatUploads upload partialUploads)
                                           (ConcatUploads (composer handler) upload partialUploads) w4 of
                                      (Some err, w5) \<Rightarrow> (Inl err, w5)
                                    | (None, w5) \<Rightarrow>
                                        (Inr (info2 \<lparr> Offset := size' \<rparr>),
                                         if NotifyCompleteUploads (config handler)
                                         then emit (SendCompleteUploads (info2 \<lparr> Offset := size' \<rparr>)) w5
                                         else w5))
                                 else (Inr info2, w4)) of
                             (Inl err, w5) \<Rightarrow> sendError r err w5
                           | (Inr info3, w5) \<Rightarrow>
                               if containsChunk then
                                 (case acquireLock handler fileID w5 of
                                    (Some err, w6) \<Rightarrow> sendError r err w6
                                  | (None, w6) \<Rightarrow>
                                      releaseLock handler fileID
                                        (case writeChunk handler r resp2 upload info3 w6 of
                                           ((resp3, Some err), w7) \<Rightarrow> sendError r err w7
                                         | ((resp3, None), w7) \<Rightarrow> sendResp resp3 w7))
                               else if \<not> sizeIsDeferred \<and> size' = 0 then
                                 (case finishUploadIfComplete handler r resp2 upload info3 w5 of
                                    ((resp3, Some err), w6) \<Rightarrow> sendError r err w6
                                  | ((resp3, None), w6) \<Rightarrow> sendResp resp3 w6)
                               else sendResp resp2 w5))))"

text \<open>\<open>PostFileV2\<close>: the creation of an upload by a request of the draft protocol.\<close>

definition PostFileV2 :: "'s UnroutedHandler \<Rightarrow> Request \<Rightarrow> 's World \<Rightarrow> 's World" where
  "PostFileV2 handler r w =
     (let contentType = Get r ''Content-Type'';
          contentDisposition = Get r ''Content-Disposition'';
          isComplete = (Get r ''Upload-Complete'' = ''?1'');
          info0 = \<lparr> ID = [], Size = 0, SizeIsDeferred = False, Offset = 0,
                    MetaData = Map.empty, IsPartial = False, IsFinal = False,
                    PartialUploads = [], Storage = Map.empty \<rparr>
      in if \<not> (isComplete \<and> ContentLength r \<noteq> - 1) \<and> \<not> UsesLengthDeferrer (composer handler)
         then sendError r (TusError ErrNotImplemented) w
         else
           (let info1 = (if isComplete \<and> ContentLength r \<noteq> - 1
                         then info0 \<lparr> Size := ContentLength r \<rparr>
                         else info0 \<lparr> SizeIsDeferred := True \<rparr>)
            in case (if contentType \<noteq> []
                     then (case ParseMediaType (config handler) contentType of
                             Inl err \<Rightarrow> Inl err
                           | Inr (fileType, params) \<Rightarrow>
                               Inr (info1 \<lparr> MetaData := (MetaData info1)(''filetype'' \<mapsto> fileType) \<rparr>))
                     else Inr info1) of
                 Inl err \<Rightarrow> sendError r err w
               | Inr info2 \<Rightarrow>
                   (case (if contentDisposition \<noteq> []
                          then (case ParseMediaType (config handler) contentDisposition of
                                  Inl err \<Rightarrow> Inl err
                                | Inr (mediaType, params) \<Rightarrow>
                                    (case params ''filename'' of
                                       None \<Rightarrow> Inr info2
                                     | Some filename \<Rightarrow>
                                         if filename \<noteq> []
                                         then Inr (info2 \<lparr> MetaData := (MetaData info2)(''filename'' \<mapsto> filename) \<rparr>)
                                         else Inr info2))
                          else Inr info2) of
                      Inl err \<Rightarrow> sendError r err w
                    | Inr info3 \<Rightarrow>
                        (let resp = \<lparr> StatusCode = 201, Body = [], Header = Map.empty \<rparr>
                         in case preUploadCreate handler r resp info3 w of
                              (Inl err, w1) \<Rightarrow> sendError r err w1
                            | (Inr (resp1, info4), w1) \<Rightarrow>
                                (case perform (CallNewUpload info4) (NewUpload (composer handler) info4) w1 of
                                   (Inl err, w2) \<Rightarrow> sendError r err w2
                                 | (Inr upload, w2) \<Rightarrow>
                                     (case perform (CallGetInfo upload) (GetInfo (composer handler) upload) w2 of
                                        (Inl err, w3) \<Rightarrow> sendError r err w3
                                      | (Inr info, w3) \<Rightarrow>
                                          (let fileID = ID info;
                                               url = absFileURL handler r fileID;
                                               resp2 = resp1 \<lparr> Header := (Header resp1)(''Location'' \<mapsto> url) \<rparr>;
                                               w4 = emit (WriteInformational url) w3;
                                               w5 = (if NotifyCreatedUploads (config handler)
                                                     then emit (SendCreatedUploads info) w4 else w4)
                                           in case acquireLock handler fileID w5 of
                                                (Some err, w6) \<Rightarrow> sendError r err w6
                                              | (None, w6) \<Rightarrow>
                                                  releaseLock handler fileID
                                                    (case writeChunk handler r resp2 upload info w6 of
                                                       ((resp3, Some err), w7) \<Rightarrow> sendError r err w7
                                                     | ((resp3, None), w7) \<Rightarrow>
                                                         if isComplete \<and> SizeIsDeferred info
                                                         then declareLengthAndFinish handler r resp3 upload w7
                                                         else sendResp resp3 w7))))))))"

text \<open>
  \<open>PostFile\<close>. The validation computes the partial uploads, the size and whether the size
  is deferred, or the error to send.
\<close>

definition PostFile :: "'s UnroutedHandler \<Rightarrow> Request \<Rightarrow> 's World \<Rightarrow> 's UnroutedHandler \<times> 's World" where
  "PostFile handler0 r w =
     (let handler = selectStore handler0 r
      in if isResumableUploadDraftRequest handler r then (handler, PostFileV2 handler r w)
         else
           (let containsChunk = (Get r ''Content-Type'' = ''application/offset+octet-stream'');
                concatHeader = (if UsesConcater (composer handler) then Get r ''Upload-Concat'' else [])
            in case parseConcat concatHeader of
                 (isPartial, isFinal, partialUploadIDs, Some err) \<Rightarrow> (handler, sendError r err w)
               | (isPartial, isFinal, partialUploadIDs, None) \<Rightarrow>
                   (case (if isFinal then
                            (if containsChunk then (Inl (TusError ErrModifyFinal), w)
                             else (case sizeOfUploads handler partialUploadIDs w of
                                     (Inl err, w1) \<Rightarrow> (Inl err, w1)
                                   | (Inr (partialUploads, size'), w1) \<Rightarrow>
                                       (Inr (partialUploads, size', False), w1)))
                          else
                            (case validateNewUploadLengthHeaders handler
                                    (Get r ''Upload-Length'') (Get r ''Upload-Defer-Length'') of
                               (size', sizeIsDeferred, Some err) \<Rightarrow> (Inl err, w)
                             | (size', sizeIsDeferred, None) \<Rightarrow> (Inr ([], size', sizeIsDeferred), w))) of
                      (Inl err, w1) \<Rightarrow> (handler, sendError r err w1)
                    | (Inr (partialUploads, size', sizeIsDeferred), w1) \<Rightarrow>
                        if 0 <s MaxSize (config handler) \<and> MaxSize (config handler) <s size'
                        then (handler, sendError r (TusError ErrMaxSizeExceeded) w1)
                        else (handler,
                              PostFile_create handler r containsChunk isPartial isFinal
                                partialUploadIDs partialUploads size' sizeIsDeferred w1))))"

section \<open>An in-memory store for the examples\<close>

text \<open>
  A store that keeps the info of each upload in a list of pairs. Its \<open>WriteChunk\<close> writes
  every byte that the bounded reader delivers: the first \<open>maxSize\<close> bytes of the body
  (none for a negative bound), and the reader records \<open>ErrSizeExceeded\<close> when the body is
  longer. Locks are always granted.
\<close>

type_synonym MemStore = "(string \<times> FileInfo) list"

definition memPut :: "string \<Rightarrow> FileInfo \<Rightarrow> MemStore \<Rightarrow> MemStore" where
  "memPut k info s = (k, info) # filter (\<lambda>kv. fst kv \<noteq> k) s"

definition memNewUpload :: "FileInfo \<Rightarrow> MemStore \<Rightarrow> (error + Upload) \<times> MemStore" where
  "memNewUpload info s =
     (let k = (if ID info = [] then ''new'' else ID info)
      in (Inr k, memPut k (info \<lparr> ID := k \<rparr>) s))"

definition memGetUpload :: "string \<Rightarrow> MemStore \<Rightarrow> (error + Upload) \<times> MemStore" where
  "memGetUpload k s =
     (case map_of s k of None \<Rightarrow> (Inl (TusError ErrNotFound), s) | Some info \<Rightarrow> (Inr k, s))"

definition memGetInfo :: "Upload \<Rightarrow> MemStore \<Rightarrow> (error + FileInfo) \<times> MemStore" where
  "memGetInfo k s =
     (case map_of s k of None \<Rightarrow> (Inl (TusError ErrNotFound), s) | Some info \<Rightarrow> (Inr info, s))"

definition memWriteChunk ::
  "Upload \<Rightarrow> int64 \<Rightarrow> BodyReader \<Rightarrow> MemStore \<Rightarrow> (int64 \<times> error option \<times> error option) \<times> MemStore" where
  "memWriteChunk k offset reader s =
     (case map_of s k of
        None \<Rightarrow> ((0, Some (TusError ErrNotFound), None), s)
      | Some info \<Rightarrow>
          (let n = min (length (ReaderBody reader)) (nat (sint (ReaderMaxSize reader)));
               bodyErr = (if n < length (ReaderBody reader) then Some (TusError ErrSizeExceeded) else None)
           in ((word_of_nat n, None, bodyErr), memPut k (info \<lparr> Offset := offset + word_of_nat n \<rparr>) s)))"

definition memDeclareLength :: "Upload \<Rightarrow> int64 \<Rightarrow> MemStore \<Rightarrow> error option \<times> MemStore" where
  "memDeclareLength k n s =
     (case map_of s k of
        None \<Rightarrow> (Some (TusError ErrNotFound), s)
      | Some info \<Rightarrow> (None, memPut k (info \<lparr> Size := n, SizeIsDeferred := False \<rparr>) s))"

definition memComposer :: "bool \<Rightarrow> bool \<Rightarrow> bool \<Rightarrow> bool \<Rightarrow> MemStore StoreComposer" where
  "memComposer terminater concater lengthDeferrer locker =
     \<lparr> UsesTerminater = terminater, UsesConcater = concater,
       UsesLengthDeferrer = lengthDeferrer, UsesLocker = locker,
       NewUpload = memNewUpload, GetUpload = memGetUpload, GetInfo = memGetInfo,
       WriteChunk = memWriteChunk,
       FinishUpload = (\<lambda>k s. (None, s)),
       Terminate = (\<lambda>k s. (None, filter (\<lambda>kv. fst kv \<noteq> k) s)),
       ConcatUploads = (\<lambda>k parts s. (None, s)),
       DeclareLength = memDeclareLength,
       NewLock = (\<lambda>k s. (None, s)),
       LockLock = (\<lambda>k s. (None, s)),
       LockUnlock = (\<lambda>k s. ((), s)) \<rparr>"

definition memConfig :: "int64 \<Rightarrow> MemStore Config" where
  "memConfig maxSize =
     \<lparr> MaxSize = maxSize, EnableExperimentalProtocol = False, RespectForwardedHeaders = False,
       NotifyCreatedUploads = False, NotifyCompleteUploads = True, NotifyTerminatedUploads = False,
       PreUploadCreateCallback = None, PreFinishResponseCallback = None,
       S3Composer = (\<lambda>bucketName endpoint. memComposer True True True False),
       ParseMediaType = (\<lambda>v. Inr (v, Map.empty)) \<rparr>"

definition memHandler :: "int64 \<Rightarrow> MemStore StoreComposer \<Rightarrow> MemStore UnroutedHandler" where
  "memHandler maxSize c =
     \<lparr> config = memConfig maxSize, composer = c, isBasePathAbs = False, basePath = ''/files/'' \<rparr>"

text \<open>An upload \<open>u\<close> of the given size, deferral and offset, and a request with the given headers, length and body.\<close>

definition memInfo :: "int64 \<Rightarrow> bool \<Rightarrow> int64 \<Rightarrow> FileInfo" where
  "memInfo size' deferred offset =
     \<lparr> ID = ''u'', Size = size', SizeIsDeferred = deferred, Offset = offset,
       MetaData = Map.empty, IsPartial = False, IsFinal = False, PartialUploads = [],
       Storage = Map.empty \<rparr>"

definition memWorld :: "FileInfo \<Rightarrow> MemStore World" where
  "memWorld info = \<lparr> ext = [(''u'', info)], calls = [] \<rparr>"

definition memRequest :: "string \<Rightarrow> string \<Rightarrow> (string \<times> string) list \<Rightarrow> int64 \<Rightarrow> string option \<Rightarrow> Request" where
  "memRequest m path headers len body =
     \<lparr> Method = m, URLPath = path, ReqHeader = map_of headers, ContentLength = len,
       ReqBody = body, Host = ''tus.example'', TLS = False \<rparr>"

text \<open>
  The keys that survive the grammar of the \<open>Upload-Metadata\<close> header: not empty, of
  ASCII characters other than the space and the comma, and neither starting nor ending
  with an ASCII white-space character.
\<close>

definition validKey :: "string \<Rightarrow> bool" where
  "validKey key =
     (key \<noteq> [] \<and> list_all (\<lambda>c. (of_char c :: nat) < 128 \<and> c \<noteq> CHR '' '' \<and> c \<noteq> CHR '','') key
      \<and> \<not> asciiSpace (hd key) \<and> \<not> asciiSpace (last key))"

text \<open>The calls that declare the length of an upload.\<close>

definition isDeclareLength :: "Call \<Rightarrow> bool" where
  "isDeclareLength c = (case c of CallDeclareLength upload n \<Rightarrow> True | _ \<Rightarrow> False)"

section \<open>Properties\<close>

subsection \<open>The length headers of a creation request\<close>

text \<open>
  Claim C2, as the code has it: the first check of \<open>validateNewUploadLengthHeaders\<close> is
  the capability check. When deferral is requested (\<open>Upload-Defer-Length\<close> is \<open>1\<close>) and
  the store lacks the length-deferral capability, the error is \<open>ErrNotImplemented\<close>,
  whether or not \<open>Upload-Length\<close> is present as well. Only otherwise, when both headers
  are present, the error is \<open>ErrUploadLengthAndUploadDeferLength\<close>.
\<close>

theorem validateNewUploadLengthHeaders_order:
  "(uploadDeferLengthHeader = UploadLengthDeferred \<and> \<not> UsesLengthDeferrer (composer handler) \<longrightarrow>
      snd (snd (validateNewUploadLengthHeaders handler uploadLengthHeader uploadDeferLengthHeader))
        = Some (TusError ErrNotImplemented))
   \<and> (\<not> (uploadDeferLengthHeader = UploadLengthDeferred \<and> \<not> UsesLengthDeferrer (composer handler))
        \<and> uploadLengthHeader \<noteq> [] \<and> uploadDeferLengthHeader \<noteq> [] \<longrightarrow>
      snd (snd (validateNewUploadLengthHeaders handler uploadLengthHeader uploadDeferLengthHeader))
        = Some (TusError ErrUploadLengthAndUploadDeferLength))"
  by (auto simp: validateNewUploadLengthHeaders_def Let_def)

text \<open>Both cases at concrete headers: a store without and a store with the capability.\<close>

theorem validateNewUploadLengthHeaders_order_witness:
  "snd (snd (validateNewUploadLengthHeaders (memHandler 0 (memComposer True True False True)) ''10'' ''1''))
     = Some (TusError ErrNotImplemented)
   \<and> snd (snd (validateNewUploadLengthHeaders (memHandler 0 (memComposer True True True True)) ''10'' ''1''))
     = Some (TusError ErrUploadLengthAndUploadDeferLength)"
  using validateNewUploadLengthHeaders_order [of "''1''" "memHandler 0 (memComposer True True False True)" "''10''"]
        validateNewUploadLengthHeaders_order [of "''1''" "memHandler 0 (memComposer True True True True)" "''10''"]
  by (simp add: memHandler_def memComposer_def UploadLengthDeferred_def)

text \<open>
  The claim as stated fails: with both headers present and a store without the
  capability the error is \<open>ErrNotImplemented\<close>, not \<open>ErrUploadLengthAndUploadDeferLength\<close>.
\<close>

theorem validateNewUploadLengthHeaders_order_counterexample:
  "snd (snd (validateNewUploadLengthHeaders (memHandler 0 (memComposer True True False True)) ''10'' ''1''))
     = Some (TusError ErrNotImplemented)
   \<and> TusError ErrNotImplemented \<noteq> TusError ErrUploadLengthAndUploadDeferLength"
  by (simp add: validateNewUploadLengthHeaders_def memHandler_def memComposer_def UploadLengthDeferred_def
      ErrNotImplemented_def ErrUploadLengthAndUploadDeferLength_def NewError_def)

subsection \<open>Upload-Concat\<close>

lemma TrimSpace_slash: "TrimSpace ''/'' = ''/''"
  by (simp add: TrimSpace_def TrimLeftRunes.simps leadingSpace_def spaceRunes_def)

lemma TrimSpace_Nil: "TrimSpace [] = []"
  by (simp add: TrimSpace_def TrimLeftRunes.simps leadingSpace_def spaceRunes_def)

lemma parseConcat_loop_length:
  "parseConcat_loop vs acc = (ids, e) \<Longrightarrow> length acc \<le> length ids"
proof (induction vs arbitrary: acc)
  case Nil
  then show ?case by simp
next
  case (Cons v vs)
  show ?case
  proof (cases "TrimSpace v = []")
    case True
    with Cons show ?thesis by simp
  next
    case False
    show ?thesis
    proof (cases "extractIDFromPath (TrimSpace v)")
      case (Inl err)
      with False Cons.prems show ?thesis by simp
    next
      case (Inr fileID)
      with False Cons.prems have "parseConcat_loop vs (acc @ [fileID]) = (ids, e)" by simp
      from Cons.IH [OF this] show ?thesis by simp
    qed
  qed
qed

lemma parseConcat_loop_none_empty:
  "parseConcat_loop vs acc = ([], None) \<Longrightarrow> list_all (\<lambda>v. TrimSpace v = []) vs"
proof (induction vs arbitrary: acc)
  case Nil
  then show ?case by simp
next
  case (Cons v vs)
  show ?case
  proof (cases "TrimSpace v = []")
    case True
    with Cons show ?thesis by simp
  next
    case False
    show ?thesis
    proof (cases "extractIDFromPath (TrimSpace v)")
      case (Inl err)
      with False Cons.prems show ?thesis by simp
    next
      case (Inr fileID)
      with False Cons.prems have "parseConcat_loop vs (acc @ [fileID]) = ([], None)" by simp
      from parseConcat_loop_length [OF this] show ?thesis by simp
    qed
  qed
qed

lemma parseConcat_loop_error:
  "parseConcat_loop vs acc = (ids, Some e) \<Longrightarrow>
     e = TusError ErrNotFound \<and> \<not> list_all (\<lambda>v. TrimSpace v = []) vs"
proof (induction vs arbitrary: acc)
  case Nil
  then show ?case by simp
next
  case (Cons v vs)
  show ?case
  proof (cases "TrimSpace v = []")
    case True
    with Cons show ?thesis by simp
  next
    case False
    show ?thesis
    proof (cases "extractIDFromPath (TrimSpace v)")
      case (Inl err)
      then have "err = TusError ErrNotFound"
        by (auto simp: extractIDFromPath_def Let_def split: if_splits)
      with Inl False Cons.prems show ?thesis by simp
    next
      case (Inr fileID)
      with False Cons.prems have "parseConcat_loop vs (acc @ [fileID]) = (ids, Some e)" by simp
      from Cons.IH [OF this] False show ?thesis by simp
    qed
  qed
qed

text \<open>
  Claim C6, as the code has it: for a header that begins with \<open>final;\<close> and from which
  no ID is extracted there are two outcomes. When every item after the prefix is blank
  (empty once trimmed; this includes the header \<open>final;\<close> itself), \<open>parseConcat\<close> returns
  \<open>ErrInvalidConcat\<close> and reports \<open>isFinal\<close> as false. When an item is not blank but has
  no trailing path segment (such as \<open>/\<close>), the loop returns early with \<open>ErrNotFound\<close>, and
  \<open>isFinal\<close> stays true.
\<close>

theorem parseConcat_final_without_ids:
  assumes "HasPrefix header ''final;''"
    and "parseConcat header = (isPartial, isFinal, [], err)"
  shows "\<not> isPartial \<and>
         (if list_all (\<lambda>v. TrimSpace v = []) (Split (drop (length ''final;'') header) CHR '' '')
          then err = Some (TusError ErrInvalidConcat) \<and> \<not> isFinal
          else err = Some (TusError ErrNotFound) \<and> isFinal)"
proof -
  let ?items = "Split (drop (length ''final;'') header) CHR '' ''"
  from assms(1) have ne: "header \<noteq> []" and np: "header \<noteq> ''partial''"
    by (auto simp: HasPrefix_def)
  show ?thesis
  proof (cases "length header > length ''final;''")
    case False
    with assms(1) have "header = ''final;''"
      by (simp add: HasPrefix_def)
    then show ?thesis using assms(2)
      by (simp add: parseConcat_def HasPrefix_def TrimSpace_Nil)
  next
    case True
    obtain ids e where loop: "parseConcat_loop ?items [] = (ids, e)"
      by (cases "parseConcat_loop ?items []") auto
    show ?thesis
    proof (cases e)
      case None
      with loop assms True ne np have "ids = []"
        by (auto simp: parseConcat_def Let_def split: if_splits)
      with loop None have "list_all (\<lambda>v. TrimSpace v = []) ?items"
        using parseConcat_loop_none_empty by blast
      with loop None assms True ne np show ?thesis
        by (auto simp: parseConcat_def Let_def split: if_splits)
    next
      case (Some e')
      with loop have "e' = TusError ErrNotFound \<and> \<not> list_all (\<lambda>v. TrimSpace v = []) ?items"
        using parseConcat_loop_error by blast
      with loop Some assms True ne np show ?thesis
        by (auto simp: parseConcat_def Let_def split: if_splits)
    qed
  qed
qed

text \<open>The header \<open>final;\<close> followed by a space: its items are blank, the error is \<open>ErrInvalidConcat\<close>.\<close>

theorem parseConcat_final_without_ids_witness:
  "HasPrefix ''final; '' ''final;''
   \<and> parseConcat ''final; '' = (False, False, [], Some (TusError ErrInvalidConcat))
   \<and> list_all (\<lambda>v. TrimSpace v = []) (Split (drop (length ''final;'') ''final; '') CHR '' '')"
  using parseConcat_final_without_ids [of "''final; ''" False False "Some (TusError ErrInvalidConcat)"]
  by (simp add: parseConcat_def HasPrefix_def TrimSpace_Nil)

text \<open>
  The claim as stated fails at the header \<open>final;/\<close>: no ID is extracted, the error is
  \<open>ErrNotFound\<close> and \<open>isFinal\<close> is reported as true.
\<close>

theorem parseConcat_final_without_ids_counterexample:
  "HasPrefix ''final;/'' ''final;''
   \<and> parseConcat ''final;/'' = (False, True, [], Some (TusError ErrNotFound))
   \<and> TusError ErrNotFound \<noteq> TusError ErrInvalidConcat"
  by (simp add: parseConcat_def HasPrefix_def TrimSpace_slash extractIDFromPath_def
        ErrNotFound_def ErrInvalidConcat_def NewError_def)

subsection \<open>Calls and worlds\<close>

lemmas mem_defs = memHandler_def memComposer_def memConfig_def memRequest_def memInfo_def memWorld_def
  memGetUpload_def memGetInfo_def memWriteChunk_def memDeclareLength_def memPut_def memNewUpload_def






lemma finishUploadIfComplete_first_call:
  assumes "\<not> SizeIsDeferred info" and "Offset info = Size info"
  shows "\<exists>rest. calls (snd (finishUploadIfComplete handler r resp upload info w)) =
           calls w @ CallFinishUpload upload # rest"
  using assms
  by (auto simp: finishUploadIfComplete_def perform_def emit_def split: prod.splits option.splits sum.splits)


lemma acquireLock_calls:
  assumes "acquireLock handler fileID w = (None, w1)"
  shows "calls w1 = calls w @ (if UsesLocker (composer handler) then [CallNewLock fileID, CallLock fileID] else [])"
  using assms
  by (auto simp: acquireLock_def lockUpload_def perform_def split: if_splits prod.splits option.splits sum.splits)

lemma releaseLock_world:
  "releaseLock handler fileID w =
     \<lparr> ext = (if UsesLocker (composer handler) then snd (LockUnlock (composer handler) fileID (ext w)) else ext w),
       calls = calls w @ (if UsesLocker (composer handler) then [CallUnlock fileID] else []) \<rparr>"
  by (simp add: releaseLock_def perform_def split: prod.splits)

subsection \<open>The write budget\<close>




subsection \<open>The size of an upload as a bound on its offset\<close>

text \<open>
  Claim C4 at the input where the code breaks it. The eager check computes
  \<open>offset + length\<close> in \<open>int64\<close>. For an upload of size 10 at offset 1 and a request
  with \<open>Content-Length\<close> 9223372036854775807 the sum wraps around to a negative number:
  the request is not rejected, the reader is bounded by the \<open>Content-Length\<close>, the store
  writes the 20 bytes of the body, and the offset reported is 21, beyond the size.
\<close>

theorem writeChunk_size_check_wraps:
  "fst (writeChunk (memHandler 0 (memComposer True True True True))
          (memRequest ''PATCH'' ''/files/u'' [] 9223372036854775807 (Some ''01234567890123456789''))
          \<lparr> StatusCode = 204, Body = [], Header = Map.empty \<rparr> ''u'' (memInfo 10 False 1)
          (memWorld (memInfo 10 False 1)))
     = (\<lparr> StatusCode = 204, Body = [], Header = [''Upload-Offset'' \<mapsto> ''21''] \<rparr>, None)
   \<and> ext (snd (writeChunk (memHandler 0 (memComposer True True True True))
          (memRequest ''PATCH'' ''/files/u'' [] 9223372036854775807 (Some ''01234567890123456789''))
          \<lparr> StatusCode = 204, Body = [], Header = Map.empty \<rparr> ''u'' (memInfo 10 False 1)
          (memWorld (memInfo 10 False 1))))
     = [(''u'', memInfo 10 False 21)]
   \<and> sint (10 :: int64) < sint (1 :: int64) + sint (9223372036854775807 :: int64)
   \<and> (10 :: int64) <s 21"
  by (simp add: writeChunk_def writeChunk_maxSize_def writeChunk_transfer_def finishUploadIfComplete_def
        perform_def mem_defs errorsIs_def Let_def word_sless_alt FormatInt_def natDigits.simps)

subsection \<open>Completion after the transfer\<close>

text \<open>
  Claim C7, as the code has it. A call of \<open>writeChunk\<close> that fails the eager size check
  (the size is known and smaller than offset plus \<open>Content-Length\<close>) returns
  \<open>ErrSizeExceeded\<close> with the response and the world it was given: nothing is
  transferred and no completion is attempted. For every other call, let the transfer
  (nothing, for a request without body) write \<open>bytesWritten\<close> bytes and return \<open>err\<close>.
  Then, whether or not \<open>err\<close> is an error, the world after \<open>writeChunk\<close> is the world
  after \<open>finishUploadIfComplete\<close>, run after the transfer on the response with the new
  offset; when the upload is complete at the new offset, the call after the transfer
  is \<open>FinishUpload\<close>. And when \<open>err\<close> is an error, \<open>writeChunk\<close> returns that error
  with the response it had before the completion attempt.
\<close>

theorem writeChunk_attempts_completion:
  "(\<not> SizeIsDeferred info \<and> Size info <s Offset info + ContentLength r \<longrightarrow>
      writeChunk handler r resp upload info w = ((resp, Some (TusError ErrSizeExceeded)), w))
   \<and> (\<not> (\<not> SizeIsDeferred info \<and> Size info <s Offset info + ContentLength r)
       \<and> (case ReqBody r of
             None \<Rightarrow> ((0, None), w)
           | Some body \<Rightarrow> writeChunk_transfer handler r upload info
                            (writeChunk_maxSize handler r info) body w)
          = ((bytesWritten, err), w1) \<longrightarrow>
         snd (writeChunk handler r resp upload info w) =
           snd (finishUploadIfComplete handler r
                  (resp \<lparr> Header := (Header resp)(''Upload-Offset'' \<mapsto> FormatInt (Offset info + bytesWritten)) \<rparr>)
                  upload (info \<lparr> Offset := Offset info + bytesWritten \<rparr>) w1)
         \<and> (\<not> SizeIsDeferred info \<and> Offset info + bytesWritten = Size info \<longrightarrow>
              (\<exists>rest. calls (snd (writeChunk handler r resp upload info w)) =
                 calls w1 @ CallFinishUpload upload # rest))
         \<and> (err \<noteq> None \<longrightarrow>
              fst (writeChunk handler r resp upload info w) =
                (resp \<lparr> Header := (Header resp)(''Upload-Offset'' \<mapsto> FormatInt (Offset info + bytesWritten)) \<rparr>, err)))"
proof -
  let ?resp = "resp \<lparr> Header := (Header resp)(''Upload-Offset'' \<mapsto> FormatInt (Offset info + bytesWritten)) \<rparr>"
  let ?info = "info \<lparr> Offset := Offset info + bytesWritten \<rparr>"
  have rejected: "writeChunk handler r resp upload info w = ((resp, Some (TusError ErrSizeExceeded)), w)"
    if "\<not> SizeIsDeferred info \<and> Size info <s Offset info + ContentLength r"
    using that by (simp add: writeChunk_def Let_def)
  have accepted: "snd (writeChunk handler r resp upload info w) =
           snd (finishUploadIfComplete handler r ?resp upload ?info w1)
         \<and> (\<not> SizeIsDeferred info \<and> Offset info + bytesWritten = Size info \<longrightarrow>
              (\<exists>rest. calls (snd (writeChunk handler r resp upload info w)) =
                 calls w1 @ CallFinishUpload upload # rest))
         \<and> (err \<noteq> None \<longrightarrow> fst (writeChunk handler r resp upload info w) = (?resp, err))"
    if check: "\<not> (\<not> SizeIsDeferred info \<and> Size info <s Offset info + ContentLength r)"
      and transfer: "(case ReqBody r of
                        None \<Rightarrow> ((0, None), w)
                      | Some body \<Rightarrow> writeChunk_transfer handler r upload info
                                       (writeChunk_maxSize handler r info) body w)
                     = ((bytesWritten, err), w1)"
  proof -
    obtain fr fe w2 where fin: "finishUploadIfComplete handler r ?resp upload ?info w1 = ((fr, fe), w2)"
      by (metis surj_pair)
    from check transfer fin
    have wc: "writeChunk handler r resp upload info w =
                (if err \<noteq> None then ((?resp, err), w2) else ((fr, fe), w2))"
      by (auto simp: writeChunk_def Let_def)
    have 1: "snd (writeChunk handler r resp upload info w) =
               snd (finishUploadIfComplete handler r ?resp upload ?info w1)"
      using wc fin by simp
    have 2: "\<not> SizeIsDeferred info \<and> Offset info + bytesWritten = Size info \<longrightarrow>
                (\<exists>rest. calls (snd (writeChunk handler r resp upload info w)) =
                   calls w1 @ CallFinishUpload upload # rest)"
      using 1 finishUploadIfComplete_first_call [of ?info handler r ?resp upload w1] by simp
    have 3: "err \<noteq> None \<longrightarrow> fst (writeChunk handler r resp upload info w) = (?resp, err)"
      using wc by simp
    from 1 2 3 show ?thesis by blast
  qed
  from rejected accepted show ?thesis by blast
qed

text \<open>
  An upload of size 10 at offset 5. With a body of 10 bytes and \<open>Content-Length\<close> 10 the
  call is rejected and the world is as before. With the same body of unknown length the
  reader stops at 5 bytes with \<open>ErrSizeExceeded\<close>, the upload is complete and is
  finished, and \<open>writeChunk\<close> returns \<open>ErrSizeExceeded\<close> with the offset 10.
\<close>

theorem writeChunk_attempts_completion_witness:
  "writeChunk (memHandler 0 (memComposer True True True True))
      (memRequest ''PATCH'' ''/files/u'' [] 10 (Some ''0123456789''))
      \<lparr> StatusCode = 204, Body = [], Header = Map.empty \<rparr> ''u'' (memInfo 10 False 5)
      (memWorld (memInfo 10 False 5))
   = ((\<lparr> StatusCode = 204, Body = [], Header = Map.empty \<rparr>, Some (TusError ErrSizeExceeded)),
      memWorld (memInfo 10 False 5))
   \<and> writeChunk (memHandler 0 (memComposer True True True True))
      (memRequest ''PATCH'' ''/files/u'' [] (- 1) (Some ''0123456789''))
      \<lparr> StatusCode = 204, Body = [], Header = Map.empty \<rparr> ''u'' (memInfo 10 False 5)
      (memWorld (memInfo 10 False 5))
   = ((\<lparr> StatusCode = 204, Body = [], Header = [''Upload-Offset'' \<mapsto> ''10''] \<rparr>,
       Some (TusError ErrSizeExceeded)),
      \<lparr> ext = [(''u'', memInfo 10 False 10)],
        calls = [CallWriteChunk ''u'' 5 \<lparr> ReaderMaxSize = 5, ReaderBody = ''0123456789'' \<rparr>,
                 CallFinishUpload ''u'', SendCompleteUploads (memInfo 10 False 10)] \<rparr>)"
proof -
  let ?h = "memHandler 0 (memComposer True True True True)"
  let ?rej = "memRequest ''PATCH'' ''/files/u'' [] 10 (Some ''0123456789'')"
  let ?r = "memRequest ''PATCH'' ''/files/u'' [] (- 1) (Some ''0123456789'')"
  let ?i = "memInfo 10 False 5"
  let ?w1 = "\<lparr> ext = [(''u'', memInfo 10 False 10)],
               calls = [CallWriteChunk ''u'' 5 \<lparr> ReaderMaxSize = 5, ReaderBody = ''0123456789'' \<rparr>] \<rparr>"
  let ?resp = "\<lparr> StatusCode = 204, Body = [], Header = Map.empty \<rparr>"
  have h0: "\<not> SizeIsDeferred ?i \<and> Size ?i <s Offset ?i + ContentLength ?rej"
    by (simp add: mem_defs word_sless_alt)
  have h1: "\<not> (\<not> SizeIsDeferred ?i \<and> Size ?i <s Offset ?i + ContentLength ?r)"
    by (simp add: mem_defs word_sless_alt)
  have h2: "(case ReqBody ?r of
               None \<Rightarrow> ((0, None), memWorld ?i)
             | Some body \<Rightarrow> writeChunk_transfer ?h ?r ''u'' ?i (writeChunk_maxSize ?h ?r ?i) body (memWorld ?i))
            = ((5, Some (TusError ErrSizeExceeded)), ?w1)"
    by (simp add: writeChunk_transfer_def writeChunk_maxSize_def perform_def errorsIs_def Let_def
          mem_defs word_sless_alt ErrSizeExceeded_def ErrUploadStoppedByServer_def NewError_def)
  have fin: "finishUploadIfComplete ?h ?r
               (?resp \<lparr> Header := (Header ?resp)(''Upload-Offset'' \<mapsto> FormatInt (Offset ?i + 5)) \<rparr>)
               ''u'' (?i \<lparr> Offset := Offset ?i + 5 \<rparr>) ?w1
             = ((\<lparr> StatusCode = 204, Body = [], Header = [''Upload-Offset'' \<mapsto> ''10''] \<rparr>, None),
                \<lparr> ext = [(''u'', memInfo 10 False 10)],
                  calls = [CallWriteChunk ''u'' 5 \<lparr> ReaderMaxSize = 5, ReaderBody = ''0123456789'' \<rparr>,
                           CallFinishUpload ''u'', SendCompleteUploads (memInfo 10 False 10)] \<rparr>)"
    by (simp add: finishUploadIfComplete_def perform_def emit_def mem_defs FormatInt_def natDigits.simps)
  have a: "writeChunk ?h ?rej ?resp ''u'' ?i (memWorld ?i)
             = ((?resp, Some (TusError ErrSizeExceeded)), memWorld ?i)"
    using writeChunk_attempts_completion [of ?i ?rej ?h ?resp "''u''" "memWorld ?i"] h0 by blast
  have b: "snd (writeChunk ?h ?r ?resp ''u'' ?i (memWorld ?i)) =
             snd (finishUploadIfComplete ?h ?r
                    (?resp \<lparr> Header := (Header ?resp)(''Upload-Offset'' \<mapsto> FormatInt (Offset ?i + 5)) \<rparr>)
                    ''u'' (?i \<lparr> Offset := Offset ?i + 5 \<rparr>) ?w1)
           \<and> fst (writeChunk ?h ?r ?resp ''u'' ?i (memWorld ?i)) =
               (?resp \<lparr> Header := (Header ?resp)(''Upload-Offset'' \<mapsto> FormatInt (Offset ?i + 5)) \<rparr>,
                Some (TusError ErrSizeExceeded))"
    using writeChunk_attempts_completion
            [of ?i ?r ?h ?resp "''u''" "memWorld ?i" 5 "Some (TusError ErrSizeExceeded)" ?w1] h1 h2
    by blast
  from b fin have c: "writeChunk ?h ?r ?resp ''u'' ?i (memWorld ?i)
      = ((\<lparr> StatusCode = 204, Body = [], Header = [''Upload-Offset'' \<mapsto> ''10''] \<rparr>,
           Some (TusError ErrSizeExceeded)),
         \<lparr> ext = [(''u'', memInfo 10 False 10)],
           calls = [CallWriteChunk ''u'' 5 \<lparr> ReaderMaxSize = 5, ReaderBody = ''0123456789'' \<rparr>,
                    CallFinishUpload ''u'', SendCompleteUploads (memInfo 10 False 10)] \<rparr>)"
    by (simp add: prod_eq_iff mem_defs FormatInt_def natDigits.simps)
  from a c show ?thesis by (rule conjI)
qed

text \<open>
  The claim as stated fails for a complete upload (size 0 at offset 0) and a request
  with a body of 5 bytes and \<open>Content-Length\<close> 5: \<open>writeChunk\<close> returns \<open>ErrSizeExceeded\<close>
  and calls nothing, although \<open>finishUploadIfComplete\<close> on that upload and world calls
  \<open>FinishUpload\<close> and sends the completion event.
\<close>

theorem writeChunk_attempts_completion_counterexample:
  "writeChunk (memHandler 0 (memComposer True True True True))
      (memRequest ''PATCH'' ''/files/u'' [] 5 (Some ''hello''))
      \<lparr> StatusCode = 204, Body = [], Header = Map.empty \<rparr> ''u'' (memInfo 0 False 0)
      (memWorld (memInfo 0 False 0))
   = ((\<lparr> StatusCode = 204, Body = [], Header = Map.empty \<rparr>, Some (TusError ErrSizeExceeded)),
      \<lparr> ext = [(''u'', memInfo 0 False 0)], calls = [] \<rparr>)
   \<and> calls (snd (finishUploadIfComplete (memHandler 0 (memComposer True True True True))
      (memRequest ''PATCH'' ''/files/u'' [] 5 (Some ''hello''))
      \<lparr> StatusCode = 204, Body = [], Header = Map.empty \<rparr> ''u'' (memInfo 0 False 0)
      (memWorld (memInfo 0 False 0))))
   = [CallFinishUpload ''u'', SendCompleteUploads (memInfo 0 False 0)]"
  by (simp add: writeChunk_def finishUploadIfComplete_def perform_def emit_def mem_defs Let_def
        word_sless_alt)

subsection \<open>PATCH\<close>

lemma PatchFile_reaches_locked:
  assumes "handler = selectStore handler0 r"
    and "isResumableUploadDraftRequest handler r \<or> Get r ''Content-Type'' = ''application/offset+octet-stream''"
    and "ParseInt (Get r ''Upload-Offset'') = (offset, None)"
    and "\<not> offset <s 0"
    and "extractIDFromPath (URLPath r) = Inr fileID"
    and "acquireLock handler fileID w = (None, w1)"
  shows "PatchFile handler0 r w = (handler, releaseLock handler fileID (PatchFile_locked handler r offset fileID w1))"
  using assms by (auto simp: PatchFile_def Let_def)

lemma PatchFile_locked_loaded:
  assumes "GetUpload (composer handler) fileID (ext w1) = (Inr upload, s2)"
    and "GetInfo (composer handler) upload s2 = (Inr info, s3)"
    and "\<not> IsFinal info"
    and "w3 = \<lparr> ext = s3, calls = calls w1 @ [CallGetUpload fileID, CallGetInfo upload] \<rparr>"
  shows "PatchFile_locked handler r offset fileID w1 =
     (if offset \<noteq> Offset info then sendError r (TusError ErrMismatchOffset) w3
      else if \<not> SizeIsDeferred info \<and> Offset info = Size info
      then sendResp \<lparr> StatusCode = 204, Body = [], Header = [''Upload-Offset'' \<mapsto> FormatInt offset] \<rparr> w3
      else (case PatchFile_declareLength handler r upload info w3 of
              (Inl err, w4) \<Rightarrow> sendError r err w4
            | (Inr info', w4) \<Rightarrow>
                (case writeChunk handler r \<lparr> StatusCode = 204, Body = [], Header = Map.empty \<rparr> upload info' w4 of
                   ((resp', Some err), w5) \<Rightarrow> sendError r err w5
                 | ((resp', None), w5) \<Rightarrow>
                     (let isComplete = (Get r ''Upload-Complete'' = ''?1'')
                      in if isComplete \<and> SizeIsDeferred info'
                         then declareLengthAndFinish handler r resp' upload w5
                         else sendResp resp' w5))))"
  using assms by (simp add: PatchFile_locked_def perform_def Let_def)

text \<open>
  Claim C5. Let a PATCH request reach the comparison of the offsets: its content type
  is accepted, its \<open>Upload-Offset\<close> is a non-negative integer, its path names an upload,
  the lock is acquired, the store loads the upload and its info, and the upload is not
  final. When the offset of the request differs from the offset the store reports, the
  handler sends the response of \<open>ErrMismatchOffset\<close>, whose status is 409. The calls it
  makes are those of the lock, \<open>GetUpload\<close>, \<open>GetInfo\<close> and the response: no chunk is
  written, and the store is left in the state in which \<open>GetInfo\<close> returned.
\<close>

theorem PatchFile_mismatched_offset:
  assumes "Method r = ''PATCH''"
    and "handler = selectStore handler0 r"
    and "isResumableUploadDraftRequest handler r \<or> Get r ''Content-Type'' = ''application/offset+octet-stream''"
    and "ParseInt (Get r ''Upload-Offset'') = (offset, None)"
    and "\<not> offset <s 0"
    and "extractIDFromPath (URLPath r) = Inr fileID"
    and "acquireLock handler fileID w = (None, w1)"
    and "GetUpload (composer handler) fileID (ext w1) = (Inr upload, s2)"
    and "GetInfo (composer handler) upload s2 = (Inr info, s3)"
    and "\<not> IsFinal info"
    and "offset \<noteq> Offset info"
  shows "calls (snd (PatchFile handler0 r w)) =
           calls w @ (if UsesLocker (composer handler) then [CallNewLock fileID, CallLock fileID] else [])
             @ [CallGetUpload fileID, CallGetInfo upload, WriteResponse (HTTPResponse ErrMismatchOffset)]
             @ (if UsesLocker (composer handler) then [CallUnlock fileID] else [])
         \<and> ext (snd (PatchFile handler0 r w)) =
             (if UsesLocker (composer handler) then snd (LockUnlock (composer handler) fileID s3) else s3)
         \<and> StatusCode (HTTPResponse ErrMismatchOffset) = 409"
proof -
  let ?w3 = "\<lparr> ext = s3, calls = calls w1 @ [CallGetUpload fileID, CallGetInfo upload] \<rparr>"
  have "PatchFile handler0 r w = (handler, releaseLock handler fileID (PatchFile_locked handler r offset fileID w1))"
    using assms by (intro PatchFile_reaches_locked) simp_all
  moreover have "PatchFile_locked handler r offset fileID w1 = sendError r (TusError ErrMismatchOffset) ?w3"
    using assms PatchFile_locked_loaded [of handler fileID w1 upload s2 info s3 ?w3 r offset] by simp
  ultimately show ?thesis
    using assms(1) acquireLock_calls [OF assms(7)]
    by (simp add: releaseLock_world sendError_def sendResp_def emit_def ErrMismatchOffset_def NewError_def)
qed

text \<open>The third scenario of the specification: \<open>Upload-Offset: 3\<close> for an upload at offset 5.\<close>

theorem PatchFile_mismatched_offset_witness:
  "calls (snd (PatchFile (memHandler 0 (memComposer True True True True))
       (memRequest ''PATCH'' ''/files/u''
          [(''Content-Type'', ''application/offset+octet-stream''), (''Upload-Offset'', ''3'')] 6 (Some '' world''))
       (memWorld (memInfo 11 False 5))))
   = [CallNewLock ''u'', CallLock ''u'', CallGetUpload ''u'', CallGetInfo ''u'',
      WriteResponse (HTTPResponse ErrMismatchOffset), CallUnlock ''u'']
   \<and> ext (snd (PatchFile (memHandler 0 (memComposer True True True True))
       (memRequest ''PATCH'' ''/files/u''
          [(''Content-Type'', ''application/offset+octet-stream''), (''Upload-Offset'', ''3'')] 6 (Some '' world''))
       (memWorld (memInfo 11 False 5))))
   = [(''u'', memInfo 11 False 5)]"
proof -
  let ?h = "memHandler 0 (memComposer True True True True)"
  let ?r = "memRequest ''PATCH'' ''/files/u''
          [(''Content-Type'', ''application/offset+octet-stream''), (''Upload-Offset'', ''3'')] 6 (Some '' world'')"
  let ?i = "memInfo 11 False 5"
  let ?w1 = "\<lparr> ext = [(''u'', ?i)], calls = [CallNewLock ''u'', CallLock ''u''] \<rparr>"
  have h1: "Method ?r = ''PATCH''" by (simp add: mem_defs)
  have h2: "?h = selectStore ?h ?r" by (simp add: selectStore_def Get_def mem_defs)
  have h3: "isResumableUploadDraftRequest ?h ?r \<or> Get ?r ''Content-Type'' = ''application/offset+octet-stream''"
    by (simp add: Get_def mem_defs)
  have h4: "ParseInt (Get ?r ''Upload-Offset'') = (3, None)"
    by (simp add: Get_def mem_defs ParseInt_def ParseUint_def isDigit_def)
  have h5: "\<not> (3 :: int64) <s 0" by (simp add: word_sless_alt)
  have h6: "extractIDFromPath (URLPath ?r) = Inr ''u''" by (simp add: extractIDFromPath_def mem_defs)
  have h7: "acquireLock ?h ''u'' (memWorld ?i) = (None, ?w1)"
    by (simp add: acquireLock_def lockUpload_def perform_def mem_defs)
  have h8: "GetUpload (composer ?h) ''u'' (ext ?w1) = (Inr ''u'', [(''u'', ?i)])" by (simp add: mem_defs)
  have h9: "GetInfo (composer ?h) ''u'' [(''u'', ?i)] = (Inr ?i, [(''u'', ?i)])" by (simp add: mem_defs)
  have h10: "\<not> IsFinal ?i" by (simp add: mem_defs)
  have h11: "(3 :: int64) \<noteq> Offset ?i" by (simp add: mem_defs)
  from PatchFile_mismatched_offset [OF h1 h2 h3 h4 h5 h6 h7 h8 h9 h10 h11] show ?thesis
    by (simp add: mem_defs)
qed



lemma declared_sendResp: "filter isDeclareLength (calls (sendResp resp w)) = filter isDeclareLength (calls w)"
  by (simp add: sendResp_def emit_def isDeclareLength_def)

lemma declared_sendError: "filter isDeclareLength (calls (sendError r e w)) = filter isDeclareLength (calls w)"
  by (simp add: sendError_def Let_def declared_sendResp)

lemma declared_releaseLock:
  "filter isDeclareLength (calls (releaseLock handler fileID w)) = filter isDeclareLength (calls w)"
  by (simp add: releaseLock_world isDeclareLength_def)

lemma declared_terminateUpload:
  "filter isDeclareLength (calls (snd (terminateUpload handler upload info w))) = filter isDeclareLength (calls w)"
  by (auto simp: terminateUpload_def perform_def emit_def isDeclareLength_def split: prod.splits option.splits)

lemma declared_finishUploadIfComplete:
  "filter isDeclareLength (calls (snd (finishUploadIfComplete handler r resp upload info w))) =
     filter isDeclareLength (calls w)"
  by (auto simp: finishUploadIfComplete_def perform_def emit_def isDeclareLength_def
      split: prod.splits option.splits sum.splits)

lemma declared_writeChunk_transfer:
  "filter isDeclareLength (calls (snd (writeChunk_transfer handler r upload info maxSize body w))) =
     filter isDeclareLength (calls w)"
proof -
  obtain bw e be s where wc: "WriteChunk (composer handler) upload (Offset info)
       \<lparr> ReaderMaxSize = maxSize, ReaderBody = body \<rparr> (ext w) = ((bw, e, be), s)"
    by (metis prod_cases3 surj_pair)
  show ?thesis
    using wc by (simp add: writeChunk_transfer_def perform_def Let_def declared_terminateUpload isDeclareLength_def)
qed

lemma declared_writeChunk:
  "filter isDeclareLength (calls (snd (writeChunk handler r resp upload info w))) =
     filter isDeclareLength (calls w)"
proof (cases "\<not> SizeIsDeferred info \<and> Size info <s Offset info + ContentLength r")
  case True
  then show ?thesis by (simp add: writeChunk_def Let_def)
next
  case False
  obtain bw e w1 where tr: "(case ReqBody r of
                      None \<Rightarrow> ((0, None), w)
                    | Some body \<Rightarrow> writeChunk_transfer handler r upload info
                                     (writeChunk_maxSize handler r info) body w) = ((bw, e), w1)"
    by (metis surj_pair)
  have w1: "filter isDeclareLength (calls w1) = filter isDeclareLength (calls w)"
  proof (cases "ReqBody r")
    case None
    with tr show ?thesis by simp
  next
    case (Some body)
    with tr have "snd (writeChunk_transfer handler r upload info (writeChunk_maxSize handler r info) body w) = w1"
      by simp
    with declared_writeChunk_transfer [of handler r upload info "writeChunk_maxSize handler r info" body w]
    show ?thesis by simp
  qed
  let ?resp = "resp \<lparr> Header := (Header resp)(''Upload-Offset'' \<mapsto> FormatInt (Offset info + bw)) \<rparr>"
  let ?info = "info \<lparr> Offset := Offset info + bw \<rparr>"
  have "calls (snd (writeChunk handler r resp upload info w)) =
          calls (snd (finishUploadIfComplete handler r ?resp upload ?info w1))"
    using False tr by (auto simp: writeChunk_def Let_def split: prod.splits)
  with w1 show ?thesis
    by (simp add: declared_finishUploadIfComplete)
qed

text \<open>
  Claim C9, as the code has it. Let a PATCH request with an \<open>Upload-Length\<close> header
  reach the declaration of the length: it passes the checks above, its offset is the
  offset the store reports, and the upload is not complete. Let \<open>w3\<close> be the world
  after \<open>GetInfo\<close>. When the store lacks the length-deferral capability, the handler
  sends \<open>ErrNotImplemented\<close>. When it has the capability, the declaration is rejected
  with \<open>ErrInvalidUploadLength\<close> if the size of the upload is not deferred, or the
  header is not an integer of 64 bits, or the value is negative, below the offset, or
  above a positive \<open>MaxSize\<close>. In both cases the handler sends the error in the world
  \<open>w3\<close> and \<open>DeclareLength\<close> is not called. Otherwise the request calls \<open>DeclareLength\<close>
  once, with the value of the header.
\<close>

theorem PatchFile_upload_length:
  assumes "handler = selectStore handler0 r"
    and "isResumableUploadDraftRequest handler r \<or> Get r ''Content-Type'' = ''application/offset+octet-stream''"
    and "ParseInt (Get r ''Upload-Offset'') = (offset, None)"
    and "\<not> offset <s 0"
    and "extractIDFromPath (URLPath r) = Inr fileID"
    and "acquireLock handler fileID w = (None, w1)"
    and "GetUpload (composer handler) fileID (ext w1) = (Inr upload, s2)"
    and "GetInfo (composer handler) upload s2 = (Inr info, s3)"
    and "\<not> IsFinal info"
    and "offset = Offset info"
    and "SizeIsDeferred info \<or> Offset info \<noteq> Size info"
    and "Get r ''Upload-Length'' \<noteq> []"
    and "ParseInt (Get r ''Upload-Length'') = (uploadLength, perr)"
    and "w3 = \<lparr> ext = s3, calls = calls w1 @ [CallGetUpload fileID, CallGetInfo upload] \<rparr>"
    and "rejected = (\<not> SizeIsDeferred info \<or> perr \<noteq> None \<or> uploadLength <s 0 \<or> uploadLength <s Offset info
            \<or> (0 <s MaxSize (config handler) \<and> MaxSize (config handler) <s uploadLength))"
  shows "(\<not> UsesLengthDeferrer (composer handler) \<longrightarrow>
            snd (PatchFile handler0 r w) =
              releaseLock handler fileID (sendError r (TusError ErrNotImplemented) w3)
            \<and> filter isDeclareLength (calls (snd (PatchFile handler0 r w))) = filter isDeclareLength (calls w))
       \<and> (UsesLengthDeferrer (composer handler) \<and> rejected \<longrightarrow>
            snd (PatchFile handler0 r w) =
              releaseLock handler fileID (sendError r (TusError ErrInvalidUploadLength) w3)
            \<and> filter isDeclareLength (calls (snd (PatchFile handler0 r w))) = filter isDeclareLength (calls w))
       \<and> (UsesLengthDeferrer (composer handler) \<and> \<not> rejected \<longrightarrow>
            filter isDeclareLength (calls (snd (PatchFile handler0 r w))) =
              filter isDeclareLength (calls w) @ [CallDeclareLength upload uploadLength])"
proof -
  have pf: "PatchFile handler0 r w = (handler, releaseLock handler fileID (PatchFile_locked handler r offset fileID w1))"
    using assms by (intro PatchFile_reaches_locked) simp_all
  have lk: "PatchFile_locked handler r offset fileID w1 =
      (case PatchFile_declareLength handler r upload info w3 of
              (Inl err, w4) \<Rightarrow> sendError r err w4
            | (Inr info', w4) \<Rightarrow>
                (case writeChunk handler r \<lparr> StatusCode = 204, Body = [], Header = Map.empty \<rparr> upload info' w4 of
                   ((resp', Some err), w5) \<Rightarrow> sendError r err w5
                 | ((resp', None), w5) \<Rightarrow>
                     (let isComplete = (Get r ''Upload-Complete'' = ''?1'')
                      in if isComplete \<and> SizeIsDeferred info'
                         then declareLengthAndFinish handler r resp' upload w5
                         else sendResp resp' w5)))"
    using assms PatchFile_locked_loaded [of handler fileID w1 upload s2 info s3 w3 r offset] by auto
  have d3: "filter isDeclareLength (calls w3) = filter isDeclareLength (calls w)"
    using assms(14) acquireLock_calls [OF assms(6)] by (simp add: isDeclareLength_def)
  have a: "\<not> UsesLengthDeferrer (composer handler) \<Longrightarrow>
      PatchFile_declareLength handler r upload info w3 = (Inl (TusError ErrNotImplemented), w3)"
    using assms(12) by (simp add: PatchFile_declareLength_def)
  have b: "UsesLengthDeferrer (composer handler) \<Longrightarrow> rejected \<Longrightarrow>
      PatchFile_declareLength handler r upload info w3 = (Inl (TusError ErrInvalidUploadLength), w3)"
    using assms(12,13,15) by (auto simp: PatchFile_declareLength_def)
  have c: "filter isDeclareLength (calls (snd (PatchFile handler0 r w))) =
              filter isDeclareLength (calls w) @ [CallDeclareLength upload uploadLength]"
    if u: "UsesLengthDeferrer (composer handler)" and nr: "\<not> rejected"
  proof -
    obtain de s4 where dl: "DeclareLength (composer handler) upload uploadLength (ext w3) = (de, s4)"
      by (metis surj_pair)
    let ?w4 = "\<lparr> ext = s4, calls = calls w3 @ [CallDeclareLength upload uploadLength] \<rparr>"
    have d4: "filter isDeclareLength (calls ?w4) = filter isDeclareLength (calls w) @ [CallDeclareLength upload uploadLength]"
      using d3 by (simp add: isDeclareLength_def)
    show ?thesis
    proof (cases de)
      case (Some err)
      with u nr dl assms(12,13,15)
      have "PatchFile_declareLength handler r upload info w3 = (Inl err, ?w4)"
        by (auto simp: PatchFile_declareLength_def perform_def)
      with pf lk d4 show ?thesis
        by (simp add: declared_releaseLock declared_sendError)
    next
      case None
      let ?info = "info \<lparr> Size := uploadLength, SizeIsDeferred := False \<rparr>"
      from None u nr dl assms(12,13,15)
      have dlr: "PatchFile_declareLength handler r upload info w3 = (Inr ?info, ?w4)"
        by (auto simp: PatchFile_declareLength_def perform_def)
      obtain resp' e w5 where wc: "writeChunk handler r \<lparr> StatusCode = 204, Body = [], Header = Map.empty \<rparr> upload ?info ?w4 = ((resp', e), w5)"
        by (metis surj_pair)
      have d5: "filter isDeclareLength (calls w5) = filter isDeclareLength (calls ?w4)"
        using declared_writeChunk [of handler r "\<lparr> StatusCode = 204, Body = [], Header = Map.empty \<rparr>" upload ?info ?w4] wc
        by simp
      from pf lk dlr wc d4 d5 show ?thesis
        by (cases e) (simp_all add: declared_releaseLock declared_sendError declared_sendResp)
    qed
  qed
  from pf lk a b c d3 show ?thesis
    by (auto simp: declared_releaseLock declared_sendError)
qed

text \<open>
  A deferred upload at offset 0, a store with the capability and \<open>MaxSize\<close> 100: the header
  \<open>Upload-Length: 10\<close> declares the length once. The same header for an upload whose size
  is known is rejected with \<open>ErrInvalidUploadLength\<close>.
\<close>

theorem PatchFile_upload_length_witness:
  "filter isDeclareLength (calls (snd (PatchFile (memHandler 100 (memComposer True True True True))
       (memRequest ''PATCH'' ''/files/u''
          [(''Content-Type'', ''application/offset+octet-stream''), (''Upload-Offset'', ''0''),
           (''Upload-Length'', ''10'')] 5 (Some ''hello''))
       (memWorld (memInfo 0 True 0)))))
   = [CallDeclareLength ''u'' 10]
   \<and> calls (snd (PatchFile (memHandler 100 (memComposer True True True True))
       (memRequest ''PATCH'' ''/files/u''
          [(''Content-Type'', ''application/offset+octet-stream''), (''Upload-Offset'', ''0''),
           (''Upload-Length'', ''10'')] 5 (Some ''hello''))
       (memWorld (memInfo 10 False 0))))
   = [CallNewLock ''u'', CallLock ''u'', CallGetUpload ''u'', CallGetInfo ''u'',
      WriteResponse (HTTPResponse ErrInvalidUploadLength), CallUnlock ''u'']"
proof -
  let ?h = "memHandler 100 (memComposer True True True True)"
  let ?r = "memRequest ''PATCH'' ''/files/u''
          [(''Content-Type'', ''application/offset+octet-stream''), (''Upload-Offset'', ''0''),
           (''Upload-Length'', ''10'')] 5 (Some ''hello'')"
  let ?i = "memInfo 0 True 0"
  let ?j = "memInfo 10 False 0"
  let ?w1 = "\<lparr> ext = [(''u'', ?i)], calls = [CallNewLock ''u'', CallLock ''u''] \<rparr>"
  let ?v1 = "\<lparr> ext = [(''u'', ?j)], calls = [CallNewLock ''u'', CallLock ''u''] \<rparr>"
  let ?w3 = "\<lparr> ext = [(''u'', ?i)], calls = calls ?w1 @ [CallGetUpload ''u'', CallGetInfo ''u''] \<rparr>"
  let ?v3 = "\<lparr> ext = [(''u'', ?j)], calls = calls ?v1 @ [CallGetUpload ''u'', CallGetInfo ''u''] \<rparr>"
  have h1: "?h = selectStore ?h ?r" by (simp add: selectStore_def Get_def mem_defs)
  have h2: "isResumableUploadDraftRequest ?h ?r \<or> Get ?r ''Content-Type'' = ''application/offset+octet-stream''"
    by (simp add: Get_def mem_defs)
  have h3: "ParseInt (Get ?r ''Upload-Offset'') = (0, None)"
    by (simp add: Get_def mem_defs ParseInt_def ParseUint_def isDigit_def)
  have h4: "\<not> (0 :: int64) <s 0" by (simp add: word_sless_alt)
  have h5: "extractIDFromPath (URLPath ?r) = Inr ''u''" by (simp add: extractIDFromPath_def mem_defs)
  have h6: "acquireLock ?h ''u'' (memWorld ?i) = (None, ?w1)"
    by (simp add: acquireLock_def lockUpload_def perform_def mem_defs)
  have g6: "acquireLock ?h ''u'' (memWorld ?j) = (None, ?v1)"
    by (simp add: acquireLock_def lockUpload_def perform_def mem_defs)
  have h7: "GetUpload (composer ?h) ''u'' (ext ?w1) = (Inr ''u'', [(''u'', ?i)])" by (simp add: mem_defs)
  have g7: "GetUpload (composer ?h) ''u'' (ext ?v1) = (Inr ''u'', [(''u'', ?j)])" by (simp add: mem_defs)
  have h8: "GetInfo (composer ?h) ''u'' [(''u'', ?i)] = (Inr ?i, [(''u'', ?i)])" by (simp add: mem_defs)
  have g8: "GetInfo (composer ?h) ''u'' [(''u'', ?j)] = (Inr ?j, [(''u'', ?j)])" by (simp add: mem_defs)
  have h9: "\<not> IsFinal ?i" by (simp add: mem_defs)
  have g9: "\<not> IsFinal ?j" by (simp add: mem_defs)
  have h10: "(0 :: int64) = Offset ?i" by (simp add: mem_defs)
  have g10: "(0 :: int64) = Offset ?j" by (simp add: mem_defs)
  have h11: "SizeIsDeferred ?i \<or> Offset ?i \<noteq> Size ?i" by (simp add: mem_defs)
  have g11: "SizeIsDeferred ?j \<or> Offset ?j \<noteq> Size ?j" by (simp add: mem_defs)
  have h12: "Get ?r ''Upload-Length'' \<noteq> []" by (simp add: Get_def mem_defs)
  have h13: "ParseInt (Get ?r ''Upload-Length'') = (10, None)"
    by (simp add: Get_def mem_defs ParseInt_def ParseUint_def isDigit_def)
  have h14: "?w3 = \<lparr> ext = [(''u'', ?i)], calls = calls ?w1 @ [CallGetUpload ''u'', CallGetInfo ''u''] \<rparr>"
    by simp
  have g14: "?v3 = \<lparr> ext = [(''u'', ?j)], calls = calls ?v1 @ [CallGetUpload ''u'', CallGetInfo ''u''] \<rparr>"
    by simp
  have h15: "False = (\<not> SizeIsDeferred ?i \<or> (None :: NumError option) \<noteq> None \<or> (10 :: int64) <s 0
            \<or> 10 <s Offset ?i \<or> (0 <s MaxSize (config ?h) \<and> MaxSize (config ?h) <s 10))"
    by (simp add: mem_defs word_sless_alt)
  have g15: "True = (\<not> SizeIsDeferred ?j \<or> (None :: NumError option) \<noteq> None \<or> (10 :: int64) <s 0
            \<or> 10 <s Offset ?j \<or> (0 <s MaxSize (config ?h) \<and> MaxSize (config ?h) <s 10))"
    by (simp add: mem_defs)
  have u: "UsesLengthDeferrer (composer ?h)" by (simp add: mem_defs)
  from PatchFile_upload_length [OF h1 h2 h3 h4 h5 h6 h7 h8 h9 h10 h11 h12 h13 h14 h15] u
  have 1: "filter isDeclareLength (calls (snd (PatchFile ?h ?r (memWorld ?i)))) = [CallDeclareLength ''u'' 10]"
    by (simp add: mem_defs)
  from PatchFile_upload_length [OF h1 h2 h3 h4 h5 g6 g7 g8 g9 g10 g11 h12 h13 g14 g15] u
  have 2: "calls (snd (PatchFile ?h ?r (memWorld ?j))) =
     [CallNewLock ''u'', CallLock ''u'', CallGetUpload ''u'', CallGetInfo ''u'',
      WriteResponse (HTTPResponse ErrInvalidUploadLength), CallUnlock ''u'']"
    by (simp add: releaseLock_world sendError_def sendResp_def emit_def mem_defs)
  from 1 2 show ?thesis by simp
qed

text \<open>
  The claim as stated fails for a store without the length-deferral capability: the
  header \<open>Upload-Length: 10\<close> for an upload whose size is known is answered with
  \<open>ErrNotImplemented\<close> (501), not with \<open>ErrInvalidUploadLength\<close> (400).
\<close>

theorem PatchFile_upload_length_counterexample:
  "calls (snd (PatchFile (memHandler 0 (memComposer True True False True))
       (memRequest ''PATCH'' ''/files/u''
          [(''Content-Type'', ''application/offset+octet-stream''), (''Upload-Offset'', ''0''),
           (''Upload-Length'', ''10'')] 0 (Some []))
       (memWorld (memInfo 10 False 0))))
   = [CallNewLock ''u'', CallLock ''u'', CallGetUpload ''u'', CallGetInfo ''u'',
      WriteResponse (HTTPResponse ErrNotImplemented), CallUnlock ''u'']
   \<and> HTTPResponse ErrNotImplemented \<noteq> HTTPResponse ErrInvalidUploadLength"
  by (simp add: PatchFile_def PatchFile_locked_def PatchFile_declareLength_def selectStore_def Get_def
      isResumableUploadDraftRequest_def ParseInt_def ParseUint_def isDigit_def extractIDFromPath_def
      acquireLock_def lockUpload_def releaseLock_def perform_def sendError_def sendResp_def emit_def
      mem_defs word_sless_alt Let_def ErrNotImplemented_def ErrInvalidUploadLength_def NewError_def)

subsection \<open>POST\<close>

lemma ParseInt_Nil: "ParseInt [] = (0, Some ErrSyntax)"
  by (simp add: ParseInt_def)

text \<open>
  Claim C10. Let a POST request of the tus protocol, version 1, not be a final
  concatenation: \<open>parseConcat\<close> accepts the \<open>Upload-Concat\<close> header that the handler
  consults (the empty string when the store has no concatenation) and reports
  \<open>isFinal\<close> as false. When the request has neither an \<open>Upload-Length\<close> nor an
  \<open>Upload-Defer-Length\<close> header, the validation fails with \<open>ErrInvalidUploadLength\<close>,
  since the empty string is no integer; the handler sends that error and calls nothing
  else, so no upload is created.
\<close>

theorem PostFile_without_length_headers:
  assumes "handler = selectStore handler0 r"
    and "\<not> isResumableUploadDraftRequest handler r"
    and "parseConcat (if UsesConcater (composer handler) then Get r ''Upload-Concat'' else [])
           = (isPartial, False, partialUploadIDs, None)"
    and "Get r ''Upload-Length'' = []"
    and "Get r ''Upload-Defer-Length'' = []"
  shows "validateNewUploadLengthHeaders handler (Get r ''Upload-Length'') (Get r ''Upload-Defer-Length'')
           = (0, False, Some (TusError ErrInvalidUploadLength))
         \<and> PostFile handler0 r w = (handler, sendError r (TusError ErrInvalidUploadLength) w)
         \<and> ext (snd (PostFile handler0 r w)) = ext w
         \<and> calls (snd (PostFile handler0 r w)) =
             calls w @ [WriteResponse (if Method r = ''HEAD''
                                       then (HTTPResponse ErrInvalidUploadLength) \<lparr> Body := [] \<rparr>
                                       else HTTPResponse ErrInvalidUploadLength)]"
proof -
  have v: "validateNewUploadLengthHeaders handler (Get r ''Upload-Length'') (Get r ''Upload-Defer-Length'')
           = (0, False, Some (TusError ErrInvalidUploadLength))"
    using assms(4,5)
    by (simp add: validateNewUploadLengthHeaders_def UploadLengthDeferred_def ParseInt_Nil)
  have p: "PostFile handler0 r w = (handler, sendError r (TusError ErrInvalidUploadLength) w)"
    using assms(1,2,3) v by (simp add: PostFile_def Let_def)
  from v p show ?thesis
    by (simp add: sendError_def sendResp_def emit_def)
qed

text \<open>A request for a partial upload with no length header, to an empty store.\<close>

theorem PostFile_without_length_headers_witness:
  "PostFile (memHandler 0 (memComposer True True True True))
       (memRequest ''POST'' ''/files/'' [(''Upload-Concat'', ''partial'')] 0 None)
       \<lparr> ext = [], calls = [] \<rparr>
   = (memHandler 0 (memComposer True True True True),
      \<lparr> ext = [], calls = [WriteResponse (HTTPResponse ErrInvalidUploadLength)] \<rparr>)"
proof -
  let ?h = "memHandler 0 (memComposer True True True True)"
  let ?r = "memRequest ''POST'' ''/files/'' [(''Upload-Concat'', ''partial'')] 0 None"
  have h1: "?h = selectStore ?h ?r" by (simp add: selectStore_def Get_def mem_defs)
  have h2: "\<not> isResumableUploadDraftRequest ?h ?r" by (simp add: isResumableUploadDraftRequest_def mem_defs)
  have h3: "parseConcat (if UsesConcater (composer ?h) then Get ?r ''Upload-Concat'' else [])
           = (True, False, [], None)"
    by (simp add: parseConcat_def Get_def mem_defs)
  have h4: "Get ?r ''Upload-Length'' = []" by (simp add: Get_def mem_defs)
  have h5: "Get ?r ''Upload-Defer-Length'' = []" by (simp add: Get_def mem_defs)
  from PostFile_without_length_headers [OF h1 h2 h3 h4 h5, of "\<lparr> ext = [], calls = [] \<rparr>"] show ?thesis
    by (simp add: sendError_def sendResp_def emit_def mem_defs)
qed

subsection \<open>Upload-Metadata\<close>

lemma indexOf_nth:
  "distinct xs \<Longrightarrow> n < length xs \<Longrightarrow> indexOf (xs ! n) xs = Some n"
proof (induction xs arbitrary: n)
  case Nil
  then show ?case by simp
next
  case (Cons x xs)
  show ?case
  proof (cases n)
    case 0
    then show ?thesis by simp
  next
    case (Suc m)
    with Cons.prems have "xs ! m \<noteq> x" by auto
    with Suc Cons show ?thesis by simp
  qed
qed

lemma length_encodeStd: "length encodeStd = 64"
  by (simp add: encodeStd_def)

lemma distinct_encodeStd: "distinct encodeStd"
  by (simp add: encodeStd_def)

lemma encodeStd_chars:
  "\<forall>c \<in> set encodeStd. c \<noteq> CHR ''='' \<and> c \<noteq> CHR 0x0A \<and> c \<noteq> CHR 0x0D \<and> c \<noteq> CHR '' '' \<and> c \<noteq> CHR '',''
      \<and> (of_char c :: nat) < 128 \<and> \<not> asciiSpace c"
  by (simp add: encodeStd_def asciiSpace_def)

lemma decodeMap_encodeChar: "n < 64 \<Longrightarrow> decodeMap (encodeChar n) = Some n"
  by (simp add: decodeMap_def encodeChar_def indexOf_nth distinct_encodeStd length_encodeStd)

lemma encodeChar_in: "n < 64 \<Longrightarrow> encodeChar n \<in> set encodeStd"
  by (simp add: encodeChar_def length_encodeStd)

lemma encodeChar_props:
  assumes "n < 64"
  shows "encodeChar n \<noteq> CHR ''='' \<and> encodeChar n \<noteq> CHR 0x0A \<and> encodeChar n \<noteq> CHR 0x0D
    \<and> encodeChar n \<noteq> CHR '' '' \<and> encodeChar n \<noteq> CHR '','' \<and> (of_char (encodeChar n) :: nat) < 128
    \<and> \<not> asciiSpace (encodeChar n)"
  by (rule bspec [OF encodeStd_chars encodeChar_in [OF assms]])

lemma sextets:
  fixes v :: nat
  assumes "v < 16777216"
  shows "(v div 262144 mod 64) * 262144 + (v div 4096 mod 64) * 4096 + (v div 64 mod 64) * 64 + v mod 64 = v"
proof -
  define q1 where "q1 = v div 64"
  define q2 where "q2 = q1 div 64"
  define q3 where "q3 = q2 div 64"
  have e1: "v = q1 * 64 + v mod 64" by (simp add: q1_def)
  have e2: "q1 = q2 * 64 + q1 mod 64" by (simp add: q2_def)
  have e3: "q2 = q3 * 64 + q2 mod 64" by (simp add: q3_def)
  have d2: "v div 4096 = q2" by (simp add: q2_def q1_def div_mult2_eq)
  have d3: "v div 262144 = q3" by (simp add: q3_def q2_def q1_def div_mult2_eq)
  from assms have "q3 < 64" unfolding d3 [symmetric] by simp
  then have m3: "q3 mod 64 = q3" by simp
  have "q3 * 262144 + (q2 mod 64) * 4096 + (q1 mod 64) * 64 + v mod 64 = v"
    using e1 e2 e3 by linarith
  then show ?thesis by (simp add: d2 d3 m3 q1_def)
qed

lemma of_char_byte: "(of_char (c :: char) :: nat) < 256"
  by (rule nat_of_char_less_256)

lemma char_of_add_mult_256: "char_of (a * 256 + of_char c :: nat) = c"
proof -
  have "char_of (a * 256 + of_char c :: nat) = char_of ((a * 256 + of_char c) mod 256 :: nat)"
    by (metis char_of_mod_256)
  also have "(a * 256 + of_char c) mod 256 = (of_char c :: nat)"
    using of_char_byte [of c] by simp
  finally show ?thesis by simp
qed

lemma byte_high:
  fixes a b c :: nat
  assumes "b < 256" and "c < 256"
  shows "(a * 65536 + b * 256 + c) div 65536 = a" and "(a * 65536 + b * 256 + c) div 256 = a * 256 + b"
  using assms by simp_all

lemma quantum_bytes:
  fixes a b c :: char
  shows "char_of ((of_char a * 65536 + of_char b * 256 + of_char c :: nat) div 65536) = a"
    and "char_of ((of_char a * 65536 + of_char b * 256 + of_char c :: nat) div 256) = b"
    and "char_of (of_char a * 65536 + of_char b * 256 + of_char c :: nat) = c"
proof -
  let ?v = "(of_char a * 65536 + of_char b * 256 + of_char c :: nat)"
  have "?v div 65536 = of_char a"
    by (rule byte_high [OF of_char_byte of_char_byte])
  then show "char_of (?v div 65536) = a" by simp
  have "?v div 256 = of_char a * 256 + of_char b"
    by (rule byte_high [OF of_char_byte of_char_byte])
  then show "char_of (?v div 256) = b" by (simp only: char_of_add_mult_256)
  have "?v = (of_char a * 256 + of_char b) * 256 + of_char c" by simp
  then show "char_of ?v = c" by (simp only: char_of_add_mult_256)
qed

lemma quantum_value:
  fixes a b c :: char
  shows "(of_char a * 65536 + of_char b * 256 + of_char c :: nat) < 16777216"
proof -
  have "\<And>x y z :: nat. x < 256 \<Longrightarrow> y < 256 \<Longrightarrow> z < 256 \<Longrightarrow> x * 65536 + y * 256 + z < 16777216"
    by simp
  from this [OF of_char_byte of_char_byte of_char_byte] show ?thesis .
qed

lemma pad1:
  fixes x :: nat
  shows "(x * 65536) div 64 mod 64 = 0" and "(x * 65536) mod 64 = 0"
proof -
  have e: "x * 65536 = (x * 1024) * 64" by simp
  have "(x * 65536) div 64 = x * 1024" unfolding e by simp
  moreover have "(x * 1024) mod 64 = 0"
  proof -
    have "x * 1024 = (x * 16) * 64" by simp
    then show ?thesis by (metis mod_mult_self2_is_0)
  qed
  ultimately show "(x * 65536) div 64 mod 64 = 0" by simp
  show "(x * 65536) mod 64 = 0" unfolding e by simp
qed

lemma pad2:
  fixes x y :: nat
  shows "(x * 65536 + y * 256) mod 64 = 0"
proof -
  have "x * 65536 + y * 256 = (x * 1024 + y * 4) * 64" by simp
  then show ?thesis by (metis mod_mult_self2_is_0)
qed

lemma decodeQuanta_pad2:
  assumes "n0 < 64" and "n1 < 64"
  shows "decodeQuanta [encodeChar n0, encodeChar n1, CHR ''='', CHR ''='']
           = Some [char_of ((n0 * 262144 + n1 * 4096) div 65536)]"
  using assms by (simp add: decodeMap_encodeChar)

lemma decodeQuanta_pad1:
  assumes "n0 < 64" and "n1 < 64" and "n2 < 64"
  shows "decodeQuanta [encodeChar n0, encodeChar n1, encodeChar n2, CHR ''='']
           = Some [char_of ((n0 * 262144 + n1 * 4096 + n2 * 64) div 65536),
                   char_of ((n0 * 262144 + n1 * 4096 + n2 * 64) div 256)]"
  using assms encodeChar_props [of n2] by (simp add: decodeMap_encodeChar)

lemma decodeQuanta_full:
  assumes "n0 < 64" and "n1 < 64" and "n2 < 64" and "n3 < 64"
  shows "decodeQuanta (encodeChar n0 # encodeChar n1 # encodeChar n2 # encodeChar n3 # rest)
           = (case decodeQuanta rest of None \<Rightarrow> None
              | Some bs \<Rightarrow>
                  Some ([char_of ((n0 * 262144 + n1 * 4096 + n2 * 64 + n3) div 65536),
                         char_of ((n0 * 262144 + n1 * 4096 + n2 * 64 + n3) div 256),
                         char_of (n0 * 262144 + n1 * 4096 + n2 * 64 + n3)] @ bs))"
  using assms encodeChar_props [of n2] encodeChar_props [of n3] by (simp add: decodeMap_encodeChar)

lemma decodeQuanta_EncodeToString: "decodeQuanta (EncodeToString bs) = Some bs"
proof (induction bs rule: EncodeToString.induct)
  case 1
  show ?case by simp
next
  case (2 a)
  define v :: nat where "v = of_char a * 65536 + of_char (CHR 0x00) * 256 + of_char (CHR 0x00)"
  define n0 where "n0 = v div 262144 mod 64"
  define n1 where "n1 = v div 4096 mod 64"
  have v: "v = of_char a * 65536" by (simp add: v_def)
  have lt: "v < 16777216" unfolding v_def by (rule quantum_value)
  have "n0 * 262144 + n1 * 4096 + (v div 64 mod 64) * 64 + v mod 64 = v"
    unfolding n0_def n1_def by (rule sextets [OF lt])
  moreover have "v div 64 mod 64 = 0" "v mod 64 = 0" unfolding v by (rule pad1)+
  ultimately have val: "n0 * 262144 + n1 * 4096 = v" by simp
  have enc: "EncodeToString [a] = [encodeChar n0, encodeChar n1, CHR ''='', CHR ''='']"
    by (simp add: Let_def n0_def n1_def v)
  have n: "n0 < 64" "n1 < 64" by (simp_all add: n0_def n1_def)
  have "decodeQuanta [encodeChar n0, encodeChar n1, CHR ''='', CHR ''='']
          = Some [char_of ((n0 * 262144 + n1 * 4096) div 65536)]"
    by (rule decodeQuanta_pad2 [OF n])
  then have "decodeQuanta (EncodeToString [a]) = Some [char_of (v div 65536)]"
    by (simp only: val enc)
  also have "char_of (v div 65536) = a" unfolding v_def by (rule quantum_bytes)
  finally show ?case .
next
  case (3 a b)
  define v :: nat where "v = of_char a * 65536 + of_char b * 256 + of_char (CHR 0x00)"
  define n0 where "n0 = v div 262144 mod 64"
  define n1 where "n1 = v div 4096 mod 64"
  define n2 where "n2 = v div 64 mod 64"
  have v: "v = of_char a * 65536 + of_char b * 256" by (simp add: v_def)
  have lt: "v < 16777216" unfolding v_def by (rule quantum_value)
  have "n0 * 262144 + n1 * 4096 + n2 * 64 + v mod 64 = v"
    unfolding n0_def n1_def n2_def by (rule sextets [OF lt])
  moreover have "v mod 64 = 0" unfolding v by (rule pad2)
  ultimately have val: "n0 * 262144 + n1 * 4096 + n2 * 64 = v" by simp
  have enc: "EncodeToString [a, b] = [encodeChar n0, encodeChar n1, encodeChar n2, CHR ''='']"
    by (simp add: Let_def n0_def n1_def n2_def v)
  have n: "n0 < 64" "n1 < 64" "n2 < 64" by (simp_all add: n0_def n1_def n2_def)
  have "decodeQuanta [encodeChar n0, encodeChar n1, encodeChar n2, CHR ''='']
           = Some [char_of ((n0 * 262144 + n1 * 4096 + n2 * 64) div 65536),
                   char_of ((n0 * 262144 + n1 * 4096 + n2 * 64) div 256)]"
    by (rule decodeQuanta_pad1 [OF n])
  then have "decodeQuanta (EncodeToString [a, b]) = Some [char_of (v div 65536), char_of (v div 256)]"
    by (simp only: val enc)
  also have "char_of (v div 65536) = a" unfolding v_def by (rule quantum_bytes)
  also have "char_of (v div 256) = b" unfolding v_def by (rule quantum_bytes)
  finally show ?case .
next
  case (4 a b c rest)
  define v :: nat where "v = of_char a * 65536 + of_char b * 256 + of_char c"
  define n0 where "n0 = v div 262144 mod 64"
  define n1 where "n1 = v div 4096 mod 64"
  define n2 where "n2 = v div 64 mod 64"
  define n3 where "n3 = v mod 64"
  have lt: "v < 16777216" unfolding v_def by (rule quantum_value)
  have val: "n0 * 262144 + n1 * 4096 + n2 * 64 + n3 = v"
    unfolding n0_def n1_def n2_def n3_def by (rule sextets [OF lt])
  have enc: "EncodeToString (a # b # c # rest) =
      encodeChar n0 # encodeChar n1 # encodeChar n2 # encodeChar n3 # EncodeToString rest"
    by (simp add: Let_def n0_def n1_def n2_def n3_def v_def)
  have n: "n0 < 64" "n1 < 64" "n2 < 64" "n3 < 64" by (simp_all add: n0_def n1_def n2_def n3_def)
  have "decodeQuanta (encodeChar n0 # encodeChar n1 # encodeChar n2 # encodeChar n3 # EncodeToString rest)
           = (case decodeQuanta (EncodeToString rest) of None \<Rightarrow> None
              | Some bs \<Rightarrow>
                  Some ([char_of ((n0 * 262144 + n1 * 4096 + n2 * 64 + n3) div 65536),
                         char_of ((n0 * 262144 + n1 * 4096 + n2 * 64 + n3) div 256),
                         char_of (n0 * 262144 + n1 * 4096 + n2 * 64 + n3)] @ bs))"
    by (rule decodeQuanta_full [OF n])
  then have "decodeQuanta (EncodeToString (a # b # c # rest)) =
          Some ([char_of (v div 65536), char_of (v div 256), char_of v] @ rest)"
    by (simp only: val enc "4.IH" option.case)
  also have "char_of (v div 65536) = a" unfolding v_def by (rule quantum_bytes)
  also have "char_of (v div 256) = b" unfolding v_def by (rule quantum_bytes)
  also have "char_of v = c" unfolding v_def by (rule quantum_bytes)
  finally show ?case by simp
qed

lemma EncodeToString_chars:
  "\<forall>c \<in> set (EncodeToString bs). c \<in> set encodeStd \<or> c = CHR ''=''"
  by (induction bs rule: EncodeToString.induct) (simp_all add: Let_def encodeChar_in)

lemma DecodeString_EncodeToString: "DecodeString (EncodeToString bs) = Some bs"
proof -
  have "\<forall>c \<in> set (EncodeToString bs). c \<noteq> CHR 0x0A \<and> c \<noteq> CHR 0x0D"
    using EncodeToString_chars [of bs] encodeStd_chars by auto
  then have "filter (\<lambda>c. c \<noteq> CHR 0x0A \<and> c \<noteq> CHR 0x0D) (EncodeToString bs) = EncodeToString bs"
    by (simp add: filter_id_conv)
  then show ?thesis
    by (simp add: DecodeString_def decodeQuanta_EncodeToString)
qed

lemma Split_not_Nil: "Split s sep \<noteq> []"
  by (induction s) (auto split: list.splits)

lemma Split_no_sep: "sep \<notin> set e \<Longrightarrow> Split e sep = [e]"
  by (induction e) auto

lemma Split_append_sep: "sep \<notin> set e \<Longrightarrow> Split (e @ sep # rest) sep = e # Split rest sep"
  by (induction e) auto

lemma Split_join:
  assumes "es \<noteq> []" and "\<forall>e \<in> set es. sep \<notin> set e"
  shows "Split (butlast (concat (map (\<lambda>e. e @ [sep]) es))) sep = es"
  using assms
proof (induction es)
  case Nil
  then show ?case by simp
next
  case (Cons e es)
  show ?case
  proof (cases "es = []")
    case True
    with Cons.prems show ?thesis by (simp add: Split_no_sep)
  next
    case False
    then have ne: "concat (map (\<lambda>e. e @ [sep]) es) \<noteq> []"
      by (cases es) auto
    have "butlast (concat (map (\<lambda>e. e @ [sep]) (e # es))) =
            e @ sep # butlast (concat (map (\<lambda>e. e @ [sep]) es))"
      using ne by (simp add: butlast_append)
    with Cons False show ?thesis
      by (simp add: Split_append_sep)
  qed
qed

lemma spaceRunes_heads:
  "\<forall>t \<in> set spaceRunes. t \<noteq> [] \<and> (asciiSpace (hd t) \<or> 128 \<le> (of_char (hd t) :: nat))"
  by (simp add: spaceRunes_def asciiSpace_def)

lemma spaceRunes_lasts:
  "\<forall>t \<in> set (map rev spaceRunes). t \<noteq> [] \<and> (asciiSpace (hd t) \<or> 128 \<le> (of_char (hd t) :: nat))"
  by (simp add: spaceRunes_def asciiSpace_def)

lemma leadingSpace_zero:
  assumes "s \<noteq> []" and "(of_char (hd s) :: nat) < 128" and "\<not> asciiSpace (hd s)"
    and runes: "\<forall>t \<in> set runes. t \<noteq> [] \<and> (asciiSpace (hd t) \<or> 128 \<le> (of_char (hd t) :: nat))"
  shows "leadingSpace runes s = 0"
proof -
  have "filter (\<lambda>t. take (length t) s = t) runes = []"
  proof (rule ccontr)
    assume "filter (\<lambda>t. take (length t) s = t) runes \<noteq> []"
    then obtain t where t: "t \<in> set runes" and p: "take (length t) s = t"
      by (auto simp: filter_empty_conv)
    from runes t have tn: "t \<noteq> []" and h: "asciiSpace (hd t) \<or> 128 \<le> (of_char (hd t) :: nat)"
      by auto
    from p tn assms(1) have "hd t = hd s"
      by (metis hd_take length_greater_0_conv)
    with h assms(2,3) show False by auto
  qed
  then show ?thesis by (simp add: leadingSpace_def)
qed

lemma TrimLeftRunes_id: "leadingSpace runes s = 0 \<Longrightarrow> TrimLeftRunes runes s = s"
  by (simp add: TrimLeftRunes.simps)

lemma TrimSpace_id:
  assumes "s \<noteq> []" and "(of_char (hd s) :: nat) < 128" and "\<not> asciiSpace (hd s)"
    and "(of_char (last s) :: nat) < 128" and "\<not> asciiSpace (last s)"
  shows "TrimSpace s = s"
proof -
  have l: "TrimLeftRunes spaceRunes s = s"
    using assms spaceRunes_heads by (intro TrimLeftRunes_id leadingSpace_zero) auto
  have "leadingSpace (map rev spaceRunes) (rev s) = 0"
    using assms spaceRunes_lasts by (intro leadingSpace_zero) (auto simp: hd_rev)
  then have "TrimLeftRunes (map rev spaceRunes) (rev s) = rev s"
    by (rule TrimLeftRunes_id)
  with l show ?thesis by (simp add: TrimSpace_def)
qed

lemma leadingSpace_space: "leadingSpace (map rev spaceRunes) (CHR '' '' # s) = 1"
  by (simp add: leadingSpace_def spaceRunes_def)

lemma TrimSpace_trailing_space:
  assumes "s \<noteq> []" and "(of_char (hd s) :: nat) < 128" and "\<not> asciiSpace (hd s)"
    and "(of_char (last s) :: nat) < 128" and "\<not> asciiSpace (last s)"
  shows "TrimSpace (s @ '' '') = s"
proof -
  have l: "TrimLeftRunes spaceRunes (s @ '' '') = s @ '' ''"
    using assms spaceRunes_heads by (intro TrimLeftRunes_id leadingSpace_zero) auto
  have z: "leadingSpace (map rev spaceRunes) (rev s) = 0"
    using assms spaceRunes_lasts by (intro leadingSpace_zero) (auto simp: hd_rev)
  have "TrimLeftRunes (map rev spaceRunes) (CHR '' '' # rev s) = TrimLeftRunes (map rev spaceRunes) (rev s)"
    by (subst TrimLeftRunes.simps) (simp add: leadingSpace_space)
  also have "\<dots> = rev s" using z by (rule TrimLeftRunes_id)
  finally show ?thesis using l by (simp add: TrimSpace_def)
qed

lemma EncodeToString_not_Nil: "bs \<noteq> [] \<Longrightarrow> EncodeToString bs \<noteq> []"
  by (induction bs rule: EncodeToString.induct) (simp_all add: Let_def)

lemma EncodeToString_Nil: "EncodeToString [] = []"
  by simp

lemma EncodeToString_char_props:
  assumes "c \<in> set (EncodeToString bs)"
  shows "c \<noteq> CHR '' '' \<and> c \<noteq> CHR '','' \<and> (of_char c :: nat) < 128 \<and> \<not> asciiSpace c"
proof -
  from assms EncodeToString_chars [of bs] have "c \<in> set encodeStd \<or> c = CHR ''=''" by blast
  then show ?thesis
  proof
    assume "c \<in> set encodeStd"
    with encodeStd_chars show ?thesis by blast
  next
    assume "c = CHR ''=''"
    then show ?thesis by (simp add: asciiSpace_def)
  qed
qed

lemma validKey_props:
  assumes "validKey key"
  shows "key \<noteq> []" and "CHR '' '' \<notin> set key" and "CHR '','' \<notin> set key"
    and "(of_char (hd key) :: nat) < 128" and "\<not> asciiSpace (hd key)"
    and "(of_char (last key) :: nat) < 128" and "\<not> asciiSpace (last key)"
proof -
  from assms show ne: "key \<noteq> []" by (simp add: validKey_def)
  from assms have all: "\<forall>c \<in> set key. (of_char c :: nat) < 128 \<and> c \<noteq> CHR '' '' \<and> c \<noteq> CHR '',''"
    by (simp add: validKey_def list_all_iff)
  then show "CHR '' '' \<notin> set key" and "CHR '','' \<notin> set key" by auto
  from ne all show "(of_char (hd key) :: nat) < 128" and "(of_char (last key) :: nat) < 128"
    by auto
  from assms show "\<not> asciiSpace (hd key)" and "\<not> asciiSpace (last key)"
    by (simp_all add: validKey_def)
qed

lemma entry_parts:
  assumes "validKey key"
  shows "Split (TrimSpace (key @ '' '' @ EncodeToString val)) CHR '' '' =
           (if val = [] then [key] else [key, EncodeToString val])"
proof (cases "val = []")
  case True
  have "TrimSpace (key @ '' '') = key"
    using validKey_props [OF assms] by (intro TrimSpace_trailing_space)
  with True validKey_props(2) [OF assms] show ?thesis
    by (simp add: Split_no_sep)
next
  case False
  let ?e = "EncodeToString val"
  let ?s = "key @ '' '' @ ?e"
  from False have ne: "?e \<noteq> []" by (rule EncodeToString_not_Nil)
  then have "last ?e \<in> set ?e" by simp
  from EncodeToString_char_props [OF this]
  have l: "(of_char (last ?e) :: nat) < 128" "\<not> asciiSpace (last ?e)" by simp_all
  have "TrimSpace ?s = ?s"
  proof (rule TrimSpace_id)
    show "?s \<noteq> []" by simp
    from validKey_props [OF assms] show "(of_char (hd ?s) :: nat) < 128" and "\<not> asciiSpace (hd ?s)"
      by simp_all
    from ne l show "(of_char (last ?s) :: nat) < 128" and "\<not> asciiSpace (last ?s)"
      by simp_all
  qed
  moreover have "CHR '' '' \<notin> set ?e"
    using EncodeToString_char_props [of "CHR '' ''" val] by blast
  ultimately show ?thesis
    using False validKey_props(2) [OF assms]
    by (simp add: Split_append_sep Split_no_sep)
qed

lemma ParseMetadataHeader_loop_entry:
  assumes "validKey key"
  shows "ParseMetadataHeader_loop ((key @ '' '' @ EncodeToString val) # elements) meta =
           ParseMetadataHeader_loop elements (meta(key \<mapsto> val))"
proof (cases "val = []")
  case True
  with entry_parts [OF assms, of val] validKey_props(1) [OF assms] show ?thesis
    by (simp add: Let_def)
next
  case False
  with entry_parts [OF assms, of val] validKey_props(1) [OF assms] show ?thesis
    by (simp add: Let_def DecodeString_EncodeToString)
qed

lemma ParseMetadataHeader_loop_entries:
  assumes "list_all (\<lambda>kv. validKey (fst kv)) kvs" and "distinct (map fst kvs)"
  shows "ParseMetadataHeader_loop (map (\<lambda>kv. fst kv @ '' '' @ EncodeToString (snd kv)) kvs) meta =
           meta ++ map_of kvs"
  using assms
proof (induction kvs arbitrary: meta)
  case Nil
  then show ?case by simp
next
  case (Cons kv kvs)
  obtain k v where kv: "kv = (k, v)" by (cases kv)
  from Cons.prems kv have vk: "validKey k" and rest: "list_all (\<lambda>kv. validKey (fst kv)) kvs"
    and d: "distinct (map fst kvs)" and nk: "k \<notin> dom (map_of kvs)"
    by (auto simp: dom_map_of_conv_image_fst)
  have "ParseMetadataHeader_loop (map (\<lambda>kv. fst kv @ '' '' @ EncodeToString (snd kv)) (kv # kvs)) meta =
          ParseMetadataHeader_loop (map (\<lambda>kv. fst kv @ '' '' @ EncodeToString (snd kv)) kvs) (meta(k \<mapsto> v))"
    using ParseMetadataHeader_loop_entry [OF vk] by (simp add: kv)
  also have "\<dots> = meta(k \<mapsto> v) ++ map_of kvs"
    by (rule Cons.IH [OF rest d])
  also have "\<dots> = meta ++ map_of (kv # kvs)"
    using nk by (simp add: kv map_add_upd_left)
  finally show ?case .
qed

lemma foldl_serialize:
  "foldl (\<lambda>header (key, val). header @ key @ '' '' @ EncodeToString val @ '','') acc kvs =
     acc @ concat (map (\<lambda>e. e @ '','') (map (\<lambda>kv. fst kv @ '' '' @ EncodeToString (snd kv)) kvs))"
  by (induction kvs arbitrary: acc) (auto simp: case_prod_beta)

lemma ParseMetadataHeader_loop_blank: "ParseMetadataHeader_loop [[]] meta = meta"
  by (simp add: TrimSpace_Nil)

lemma ParseMetadataHeader_SerializeMetadataHeader:
  assumes "list_all (\<lambda>kv. validKey (fst kv)) kvs" and "distinct (map fst kvs)"
  shows "ParseMetadataHeader (SerializeMetadataHeader kvs) = map_of kvs"
proof (cases "kvs = []")
  case True
  then show ?thesis
    by (simp add: ParseMetadataHeader_def SerializeMetadataHeader_def TrimSpace_Nil)
next
  case False
  let ?es = "map (\<lambda>kv. fst kv @ '' '' @ EncodeToString (snd kv)) kvs"
  let ?h = "concat (map (\<lambda>e. e @ '','') ?es)"
  from False have es: "?es \<noteq> []" by simp
  have nocomma: "\<forall>e \<in> set ?es. CHR '','' \<notin> set e"
  proof
    fix e assume "e \<in> set ?es"
    then obtain kv where kv: "kv \<in> set kvs" and e: "e = fst kv @ '' '' @ EncodeToString (snd kv)" by auto
    from assms(1) kv have "validKey (fst kv)" by (simp add: list_all_iff)
    from validKey_props(3) [OF this] EncodeToString_char_props [of "CHR '',''" "snd kv"] e
    show "CHR '','' \<notin> set e" by auto
  qed
  have ser: "SerializeMetadataHeader kvs = butlast ?h"
    unfolding SerializeMetadataHeader_def foldl_serialize
    using False by (cases kvs) (simp_all add: Let_def butlast_conv_take)
  have "Split (butlast ?h) CHR '','' = ?es"
    using Split_join [OF es nocomma] by simp
  with ser have "ParseMetadataHeader (SerializeMetadataHeader kvs) = ParseMetadataHeader_loop ?es Map.empty"
    by (simp add: ParseMetadataHeader_def)
  also have "\<dots> = Map.empty ++ map_of kvs"
    by (rule ParseMetadataHeader_loop_entries [OF assms])
  finally show ?thesis by simp
qed

lemma ParseMetadataHeader_loop_append:
  "ParseMetadataHeader_loop (xs @ ys) meta = ParseMetadataHeader_loop ys (ParseMetadataHeader_loop xs meta)"
  by (induction xs arbitrary: meta) (simp_all add: Let_def split: option.splits)

lemma ParseMetadataHeader_skips:
  assumes "Split header CHR '','' = pre @ element # post"
    and "Split (TrimSpace element) CHR '' '' = [key, val]"
    and "DecodeString val = None"
  shows "ParseMetadataHeader header = ParseMetadataHeader_loop (pre @ post) Map.empty"
  using assms by (simp add: ParseMetadataHeader_def ParseMetadataHeader_loop_append Let_def)

lemma TrimSpace_bad: "TrimSpace ''bad !!!'' = ''bad !!!''"
  by (simp add: TrimSpace_def TrimLeftRunes.simps leadingSpace_def spaceRunes_def)

lemma TrimSpace_cex: "TrimSpace ''a b eA=='' = ''a b eA==''"
  by (simp add: TrimSpace_def TrimLeftRunes.simps leadingSpace_def spaceRunes_def)

text \<open>
  Claim C3, as the code has it. Let \<open>meta\<close> list the entries of a metadata map, in
  the order in which \<open>SerializeMetadataHeader\<close> ranges over them. When every key is
  not empty, consists of ASCII characters other than the space and the comma, and
  neither starts nor ends with an ASCII white-space character (the values are
  arbitrary bytes), parsing the serialization of the map yields the map again. And for
  every header: an element of two parts whose value is no valid base64 is skipped, and
  the result is what the other elements of the header yield by themselves; the parser
  returns a map and has no error to return.
\<close>

theorem metadata_roundtrip:
  "(list_all (\<lambda>kv. validKey (fst kv)) meta \<and> distinct (map fst meta) \<longrightarrow>
      ParseMetadataHeader (SerializeMetadataHeader meta) = map_of meta)
   \<and> (Split header CHR '','' = pre @ element # post
        \<and> Split (TrimSpace element) CHR '' '' = [key, val] \<and> DecodeString val = None \<longrightarrow>
      ParseMetadataHeader header = ParseMetadataHeader_loop (pre @ post) Map.empty)"
  using ParseMetadataHeader_SerializeMetadataHeader [of meta] ParseMetadataHeader_skips [of header pre element post key val] by blast

text \<open>
  A map of two entries, one with the empty value; and a header whose second element
  has the value \<open>!!!\<close>.
\<close>

theorem metadata_roundtrip_witness:
  "ParseMetadataHeader (SerializeMetadataHeader [(''name'', ''lunrjs.png''), (''e'', [])])
     = map_of [(''name'', ''lunrjs.png''), (''e'', [])]
   \<and> ParseMetadataHeader ''a YQ==,bad !!!,c'' = ParseMetadataHeader_loop [''a YQ=='', ''c''] Map.empty"
proof -
  have h1: "list_all (\<lambda>kv. validKey (fst kv)) [(''name'', ''lunrjs.png''), (''e'', [])]
            \<and> distinct (map fst [(''name'', ''lunrjs.png''), (''e'', [])])"
    by (simp add: validKey_def asciiSpace_def)
  have h2: "Split ''a YQ==,bad !!!,c'' CHR '','' = [''a YQ==''] @ ''bad !!!'' # [''c'']
            \<and> Split (TrimSpace ''bad !!!'') CHR '' '' = [''bad'', ''!!!''] \<and> DecodeString ''!!!'' = None"
    by (simp add: TrimSpace_bad DecodeString_def)
  from metadata_roundtrip [of "[(''name'', ''lunrjs.png''), (''e'', [])]" "''a YQ==,bad !!!,c''"
      "[''a YQ=='']" "''bad !!!''" "[''c'']" "''bad''" "''!!!''"] h1 h2
  show ?thesis by simp
qed

text \<open>
  The claim as stated fails for the key \<open>a b\<close>: the serialization \<open>a b eA==\<close> has
  three parts, the parser skips it, and the entry is lost.
\<close>

theorem metadata_roundtrip_counterexample:
  "ParseMetadataHeader (SerializeMetadataHeader [(''a b'', ''x'')]) ''a b'' = None
   \<and> map_of [(''a b'', ''x'')] ''a b'' = Some ''x''"
proof -
  have s: "SerializeMetadataHeader [(''a b'', ''x'')] = ''a b eA==''"
    by (simp add: SerializeMetadataHeader_def Let_def encodeChar_def encodeStd_def)
  have p: "ParseMetadataHeader ''a b eA=='' = Map.empty"
    by (simp add: ParseMetadataHeader_def TrimSpace_cex)
  show ?thesis by (simp add: s p)
qed

end
